theory Spec2Isabelle
  imports Main "HOL-Library.Char_ord" "HOL-Library.List_Lexorder"
begin

section \<open>JavaScript values, objects and strings\<close>

text \<open>
  The three handlers are untyped (\<^verbatim>\<open>any\<close>) TypeScript. The values that flow through
  them are strings, \<^verbatim>\<open>undefined\<close>, \<^verbatim>\<open>null\<close>, the boolean of the success response
  and the \<^verbatim>\<open>Video[]\<close> array built by the listing stage. Numbers do not occur in any
  object the handlers build, and request or event fields holding numbers or nested
  objects are outside the model. A string is a list of code units below 256.
\<close>

datatype jsval = Undef | Null | Boolean bool | Str string | Videos "video list"
and video =
  Video (videoID: jsval) (video_title: jsval) (video_url: string)
        (video_publishedAt: jsval) (video_thumbnail: jsval)

text \<open>An object is a finite map from property names to values.\<close>

type_synonym obj = "string \<rightharpoonup> jsval"

text \<open>Truthiness, as tested by \<^verbatim>\<open>!x\<close>.\<close>

fun truthy :: "jsval \<Rightarrow> bool" where
  "truthy Undef = False"
| "truthy Null = False"
| "truthy (Boolean b) = b"
| "truthy (Str s) = (s \<noteq> [])"
| "truthy (Videos vs) = True"

text \<open>
  String conversion, as done by a template literal, by \<^verbatim>\<open>encodeURIComponent\<close> and by
  \<^verbatim>\<open>RegExp.test\<close>. An array of objects prints each element as \<^verbatim>\<open>[object Object]\<close>,
  joined by commas.
\<close>

fun join_comma :: "string list \<Rightarrow> string" where
  "join_comma [] = []"
| "join_comma [x] = x"
| "join_comma (x # y # ys) = x @ '','' @ join_comma (y # ys)"

fun to_str :: "jsval \<Rightarrow> string" where
  "to_str Undef = ''undefined''"
| "to_str Null = ''null''"
| "to_str (Boolean b) = (if b then ''true'' else ''false'')"
| "to_str (Str s) = s"
| "to_str (Videos vs) = join_comma (map (\<lambda>v. ''[object Object]'') vs)"

text \<open>Property read \<^verbatim>\<open>data.name\<close> on an object: a missing property is \<^verbatim>\<open>undefined\<close>.\<close>

definition field :: "obj \<Rightarrow> string \<Rightarrow> jsval" where
  "field d k = (case d k of None \<Rightarrow> Undef | Some v \<Rightarrow> v)"

text \<open>
  Object spread \<^verbatim>\<open>{...jobData, ...}\<close>: \<^verbatim>\<open>state.get\<close> of a missing key gives no record,
  and spreading it contributes no property.
\<close>

definition spread :: "obj option \<Rightarrow> obj" where
  "spread jobData = (case jobData of None \<Rightarrow> Map.empty | Some r \<Rightarrow> r)"

subsection \<open>Regular expressions\<close>

text \<open>
  A regular expression over character classes, matched against the whole string
  (the source's pattern is anchored by \<^verbatim>\<open>^\<close> and \<^verbatim>\<open>$\<close>) by derivatives.
\<close>

datatype rx = Never | Empty | Class "char \<Rightarrow> bool" | Seq rx rx | Alt rx rx | Plus rx

fun nullable :: "rx \<Rightarrow> bool" where
  "nullable Never = False"
| "nullable Empty = True"
| "nullable (Class p) = False"
| "nullable (Seq r s) = (nullable r \<and> nullable s)"
| "nullable (Alt r s) = (nullable r \<or> nullable s)"
| "nullable (Plus r) = nullable r"

fun deriv :: "char \<Rightarrow> rx \<Rightarrow> rx" where
  "deriv c Never = Never"
| "deriv c Empty = Never"
| "deriv c (Class p) = (if p c then Empty else Never)"
| "deriv c (Seq r s) =
     (if nullable r then Alt (Seq (deriv c r) s) (deriv c s) else Seq (deriv c r) s)"
| "deriv c (Alt r s) = Alt (deriv c r) (deriv c s)"
| "deriv c (Plus r) = Seq (deriv c r) (Alt Empty (Plus r))"

fun rx_test :: "rx \<Rightarrow> string \<Rightarrow> bool" where
  "rx_test r [] = nullable r"
| "rx_test r (c # cs) = rx_test (deriv c r) cs"

text \<open>
  The class \<^verbatim>\<open>\s\<close> restricted to code units below 256: tab, line feed, vertical tab,
  form feed, carriage return, space and no-break space.
\<close>

definition is_space :: "char \<Rightarrow> bool" where
  "is_space c = (of_char c \<in> {9, 10, 11, 12, 13, 32, 160 :: nat})"

text \<open>The class \<^verbatim>\<open>[^\s@]\<close>.\<close>

definition not_space_at :: "char \<Rightarrow> bool" where
  "not_space_at c = (\<not> is_space c \<and> c \<noteq> CHR ''@'')"

text \<open>\<^verbatim>\<open>/^[^\s@]+@[^\s@]+\.[^\s@]+$/\<close>\<close>

definition emailRegex :: rx where
  "emailRegex =
     Seq (Plus (Class not_space_at))
    (Seq (Class (\<lambda>c. c = CHR ''@''))
    (Seq (Plus (Class not_space_at))
    (Seq (Class (\<lambda>c. c = CHR ''.''))
         (Plus (Class not_space_at)))))"

subsection \<open>Number and string formatting\<close>

text \<open>Decimal text of a non-negative integer, as a template literal prints \<^verbatim>\<open>Date.now()\<close>.\<close>

definition digit_char :: "nat \<Rightarrow> char" where
  "digit_char d = ''0123456789'' ! d"

fun show_nat :: "nat \<Rightarrow> string" where
  "show_nat n = (if n < 10 then [digit_char n] else show_nat (n div 10) @ [digit_char (n mod 10)])"

declare show_nat.simps [simp del]

text \<open>\<^verbatim>\<open>s.substring(a, b)\<close> for \<open>a \<le> b\<close>.\<close>

definition substring :: "nat \<Rightarrow> nat \<Rightarrow> string \<Rightarrow> string" where
  "substring a b s = take (b - a) (drop a s)"

definition is_digit :: "char \<Rightarrow> bool" where
  "is_digit c = (48 \<le> (of_char c :: nat) \<and> (of_char c :: nat) \<le> 57)"

definition is_lower :: "char \<Rightarrow> bool" where
  "is_lower c = (97 \<le> (of_char c :: nat) \<and> (of_char c :: nat) \<le> 122)"

definition is_upper :: "char \<Rightarrow> bool" where
  "is_upper c = (65 \<le> (of_char c :: nat) \<and> (of_char c :: nat) \<le> 90)"

definition is_alnum :: "char \<Rightarrow> bool" where
  "is_alnum c = (is_digit c \<or> is_lower c \<or> is_upper c)"

text \<open>A digit of radix 36, as \<^verbatim>\<open>toString(36)\<close> prints it.\<close>

definition is_base36 :: "char \<Rightarrow> bool" where
  "is_base36 c = (is_digit c \<or> is_lower c)"

text \<open>
  The text that \<^verbatim>\<open>Math.random().toString(36)\<close> can produce for a number in \<open>[0, 1)\<close>:
  \<^verbatim>\<open>0\<close> for zero, otherwise \<^verbatim>\<open>0.\<close> followed by at least one digit of radix 36.
\<close>

definition is_random36 :: "string \<Rightarrow> bool" where
  "is_random36 s =
     (s = ''0'' \<or> (take 2 s = ''0.'' \<and> drop 2 s \<noteq> [] \<and> list_all is_base36 (drop 2 s)))"

text \<open>The shape \<^verbatim>\<open>job_<digits>_<alphanumeric>\<close>: a non-empty run of digits, then alphanumerics.\<close>

definition jobID_shape :: "string \<Rightarrow> bool" where
  "jobID_shape j =
     (take 4 j = ''job_'' \<and>
      takeWhile is_digit (drop 4 j) \<noteq> [] \<and>
      take 1 (dropWhile is_digit (drop 4 j)) = ''_'' \<and>
      list_all is_alnum (drop 1 (dropWhile is_digit (drop 4 j))))"

section \<open>The job store, the event bus and the environment\<close>

text \<open>
  The framework's \<^verbatim>\<open>state\<close> and \<^verbatim>\<open>emit\<close> are not part of the repository. The store is a
  map from keys to records; every \<^verbatim>\<open>state.get\<close>, \<^verbatim>\<open>state.set\<close> and \<^verbatim>\<open>emit\<close> is appended to
  a trace, in program order. Both are taken to succeed; logging is not modelled.
\<close>

datatype op = StateGet string "obj option" | StateSet string obj | Emit string obj

record world =
  store :: "string \<rightharpoonup> obj"
  trace :: "op list"

definition state_get :: "string \<Rightarrow> world \<Rightarrow> obj option \<times> world" where
  "state_get k w = (store w k, w\<lparr>trace := trace w @ [StateGet k (store w k)]\<rparr>)"

definition state_set :: "string \<Rightarrow> obj \<Rightarrow> world \<Rightarrow> world" where
  "state_set k v w = w\<lparr>store := (store w)(k \<mapsto> v), trace := trace w @ [StateSet k v]\<rparr>"

definition emit :: "string \<Rightarrow> obj \<Rightarrow> world \<Rightarrow> world" where
  "emit topic data w = w\<lparr>trace := trace w @ [Emit topic data]\<rparr>"

text \<open>The writes and the emitted events of a trace.\<close>

fun writes :: "op list \<Rightarrow> (string \<times> obj) list" where
  "writes [] = []"
| "writes (StateSet k v # ops) = (k, v) # writes ops"
| "writes (x # ops) = writes ops"

fun emitted :: "op list \<Rightarrow> (string \<times> obj) list" where
  "emitted [] = []"
| "emitted (Emit t d # ops) = (t, d) # emitted ops"
| "emitted (x # ops) = emitted ops"

text \<open>
  A call of the search endpoint \<^verbatim>\<open>https://www.googleapis.com/youtube/v3/search\<close>: the
  query parameters of the URL the handler builds, before \<^verbatim>\<open>encodeURIComponent\<close> (which is
  injective on these strings).
\<close>

record request =
  rq_part :: string
  rq_type :: string
  rq_q :: "string option"
  rq_channelId :: "string option"
  rq_maxResults :: "nat option"
  rq_order :: "string option"
  rq_key :: string

text \<open>
  The parsed body of the response, as far as the handlers read it: a JSON object whose
  \<^verbatim>\<open>items\<close>, when present, is an array of objects. Every object the handlers
  dereference inside an item may be absent (\<open>None\<close>), which makes the property read throw.
\<close>

record thumbnail =
  thumb_url :: jsval

record thumbnails =
  thumb_default :: "thumbnail option"

record snippet =
  snippet_title :: jsval
  snippet_publishedAt :: jsval
  snippet_thumbnails :: "thumbnails option"

record item_id =
  id_channelId :: jsval
  id_videoId :: jsval

record item =
  item_id :: "item_id option"
  item_snippet :: "snippet option"

record response =
  items :: "item list option"

text \<open>
  What a handler raises: \<^verbatim>\<open>new Error(message)\<close> (thrown by the handler, or the rejection of
  \<^verbatim>\<open>fetch\<close> or \<^verbatim>\<open>response.json()\<close>), or the engine's TypeError for a property read on
  \<^verbatim>\<open>undefined\<close> or a call of a missing method.
\<close>

datatype exn = Error string | TypeError

text \<open>
  Everything a handler reads from outside: the environment variable, the external API
  (\<open>Inl\<close> is a rejected call with its message), the clock, the random number as printed
  in radix 36, and the text of the engine's TypeError message.
\<close>

record env =
  YOUTUBE_API_KEY :: "string option"
  fetch :: "request \<Rightarrow> string + response"
  date_now :: nat
  random36 :: string
  iso_now :: string
  typeErrorMessage :: string

definition message :: "env \<Rightarrow> exn \<Rightarrow> string" where
  "message e x = (case x of Error m \<Rightarrow> m | TypeError \<Rightarrow> typeErrorMessage e)"

definition fetch_json :: "env \<Rightarrow> request \<Rightarrow> exn + response" where
  "fetch_json e rq = (case fetch e rq of Inl m \<Rightarrow> Inl (Error m) | Inr r \<Rightarrow> Inr r)"

section \<open>Submission stage (\<^verbatim>\<open>01-submit.step.ts\<close>)\<close>

record http_response =
  status :: nat
  body :: obj

text \<open>
  The file holds the handler twice. The two differ in the key of the job record only:
  \<^verbatim>\<open>`job:${jobID}`\<close> (line 66) and \<^verbatim>\<open>`job: ${jobID}`\<close> (line 154).
\<close>

definition key_line66 :: "string \<Rightarrow> string" where
  "key_line66 jobID = ''job:'' @ jobID"

definition key_line154 :: "string \<Rightarrow> string" where
  "key_line154 jobID = ''job: '' @ jobID"

definition new_jobID :: "env \<Rightarrow> string" where
  "new_jobID e = ''job_'' @ show_nat (date_now e) @ ''_'' @ substring 2 9 (random36 e)"

text \<open>
  The handler, for a request whose \<^verbatim>\<open>body\<close> is \<open>b\<close> (\<open>None\<close> when the request has no body:
  the destructuring throws, and the \<^verbatim>\<open>catch\<close> answers 500).
\<close>

definition submit_handler ::
  "(string \<Rightarrow> string) \<Rightarrow> env \<Rightarrow> obj option \<Rightarrow> world \<Rightarrow> http_response \<times> world" where
  "submit_handler key e b w =
     (case b of
        None \<Rightarrow> (\<lparr>status = 500, body = [''error'' \<mapsto> Str ''Internal Server Error'']\<rparr>, w)
      | Some req_body \<Rightarrow>
          let channel = field req_body ''channel'';
              email = field req_body ''email''
          in if \<not> truthy channel \<or> \<not> truthy email then
               (\<lparr>status = 400, body = [''error'' \<mapsto> Str ''Channel and email are required'']\<rparr>, w)
             else if \<not> rx_test emailRegex (to_str email) then
               (\<lparr>status = 400, body = [''error'' \<mapsto> Str ''Invalid email format'']\<rparr>, w)
             else
               let jobID = new_jobID e;
                   w1 = state_set (key jobID)
                          [''jobID'' \<mapsto> Str jobID,
                           ''channel'' \<mapsto> channel,
                           ''email'' \<mapsto> email,
                           ''status'' \<mapsto> Str ''queued'',
                           ''createdAt'' \<mapsto> Str (iso_now e)] w;
                   w2 = emit ''yt.submit''
                          [''jobID'' \<mapsto> Str jobID,
                           ''channel'' \<mapsto> channel,
                           ''email'' \<mapsto> email] w1
               in (\<lparr>status = 201,
                    body = [''success'' \<mapsto> Boolean True,
                            ''jobID'' \<mapsto> Str jobID,
                            ''message'' \<mapsto>
                              Str ''Job submitted successfully. You will get an email soon.'']\<rparr>,
                   w2))"

section \<open>Channel resolution stage (\<^verbatim>\<open>02-resolveChannel.step.ts\<close>)\<close>

text \<open>The key \<^verbatim>\<open>`job: ${jobID}`\<close> of both event handlers; \<open>jobID\<close> may be \<^verbatim>\<open>undefined\<close>.\<close>

definition job_key :: "jsval \<Rightarrow> string" where
  "job_key jobID = ''job: '' @ to_str jobID"

definition missing_key :: exn where
  "missing_key = Error ''YOUTUBE_API_KEY is not set in environment variables''"

text \<open>The two search URLs (lines 47 and 58) differ in \<^verbatim>\<open>q\<close> only.\<close>

definition search_request :: "string \<Rightarrow> string \<Rightarrow> request" where
  "search_request q apiKey =
     \<lparr>rq_part = ''snippet'', rq_type = ''channel'', rq_q = Some q, rq_channelId = None,
      rq_maxResults = None, rq_order = None, rq_key = apiKey\<rparr>"

text \<open>Steps 4 and 5 (lines 66 to 93): channel not found, or the resolved event.\<close>

definition resolve_finish ::
  "jsval \<Rightarrow> jsval \<Rightarrow> obj option \<Rightarrow> jsval \<Rightarrow> jsval \<Rightarrow> world \<Rightarrow> world" where
  "resolve_finish jobID email jobData channelID channelName w =
     (if \<not> truthy channelID then
        emit ''yt.channel.error'' [''jobID'' \<mapsto> jobID, ''email'' \<mapsto> email]
          (state_set (job_key jobID)
             ((spread jobData)(''status'' \<mapsto> Str ''failed'', ''error'' \<mapsto> Str ''Channel not found''))
             w)
      else
        emit ''yt.channel.resolved''
          [''jobID'' \<mapsto> jobID, ''channelID'' \<mapsto> channelID,
           ''channelName'' \<mapsto> channelName, ''email'' \<mapsto> email] w)"

text \<open>
  Step 3 (lines 39 to 63): the channel identifier and name found for the channel
  reference, starting from \<^verbatim>\<open>null\<close> and the empty string, or the exception raised on the
  way. The answer of the fallback search is bound to a block-local name and dropped.
\<close>

definition resolve_lookup :: "env \<Rightarrow> string \<Rightarrow> jsval \<Rightarrow> exn + jsval \<times> jsval" where
  "resolve_lookup e apiKey channel =
     (case channel of
        Str c \<Rightarrow>
          if take 1 c = ''@'' then
            (case fetch_json e (search_request (drop 1 c) apiKey) of
               Inl x \<Rightarrow> Inl x
             | Inr searchData \<Rightarrow>
                 (case items searchData of
                    Some (first # others) \<Rightarrow>
                      (case item_id first of
                         None \<Rightarrow> Inl TypeError
                       | Some i \<Rightarrow>
                           (case item_snippet first of
                              None \<Rightarrow> Inl TypeError
                            | Some sn \<Rightarrow> Inr (id_channelId i, snippet_title sn)))
                  | _ \<Rightarrow>
                      (case fetch_json e (search_request c apiKey) of
                         Inl x \<Rightarrow> Inl x
                       | Inr fallback \<Rightarrow> Inr (Null, Str []))))
          else Inr (Null, Str [])
      | _ \<Rightarrow> Inl TypeError)"

text \<open>
  The \<^verbatim>\<open>try\<close> block. The result is the exception that left the block, if any, and the
  world at that point.
\<close>

definition resolve_try :: "env \<Rightarrow> obj \<Rightarrow> world \<Rightarrow> exn option \<times> world" where
  "resolve_try e data w =
     (let jobID = field data ''jobID'';
          email = field data ''email'';
          channel = field data ''channel''
      in case YOUTUBE_API_KEY e of
           None \<Rightarrow> (Some missing_key, w)
         | Some apiKey \<Rightarrow>
             if apiKey = [] then (Some missing_key, w)
             else
               let (jobData, w1) = state_get (job_key jobID) w;
                   w2 = state_set (job_key jobID)
                          ((spread jobData)(''status'' \<mapsto> Str ''resolving channel'')) w1
               in (case resolve_lookup e apiKey channel of
                     Inl x \<Rightarrow> (Some x, w2)
                   | Inr (channelID, channelName) \<Rightarrow>
                       (None, resolve_finish jobID email jobData channelID channelName w2)))"

text \<open>The \<^verbatim>\<open>catch\<close> block (lines 95 to 119).\<close>

definition resolve_catch :: "env \<Rightarrow> obj \<Rightarrow> exn \<Rightarrow> world \<Rightarrow> world" where
  "resolve_catch e data x w =
     (let jobID = field data ''jobID'';
          email = field data ''email''
      in if \<not> truthy jobID \<or> \<not> truthy email then w
         else
           let (jobData, w1) = state_get (job_key jobID) w;
               w2 = state_set (job_key jobID)
                      ((spread jobData)(''status'' \<mapsto> Str ''failed'',
                                        ''error'' \<mapsto> Str (message e x))) w1
           in emit ''yt.channel.error''
                [''jobID'' \<mapsto> jobID, ''email'' \<mapsto> email,
                 ''error'' \<mapsto> Str (''Failed to resolve channel: '' @ message e x)] w2)"

text \<open>\<^verbatim>\<open>eventData || {}\<close>: a missing payload reads as the empty object.\<close>

definition payload :: "obj option \<Rightarrow> obj" where
  "payload eventData = (case eventData of None \<Rightarrow> Map.empty | Some d \<Rightarrow> d)"

definition resolveChannel_handler :: "env \<Rightarrow> obj option \<Rightarrow> world \<Rightarrow> world" where
  "resolveChannel_handler e eventData w =
     (case resolve_try e (payload eventData) w of
        (None, w') \<Rightarrow> w'
      | (Some x, w') \<Rightarrow> resolve_catch e (payload eventData) x w')"

section \<open>Item listing stage (\<^verbatim>\<open>FetchedVideos\<close>)\<close>

text \<open>The URL of line 70: \<^verbatim>\<open>maxResults=5&order=date&type=video\<close>.\<close>

definition list_request :: "jsval \<Rightarrow> string \<Rightarrow> request" where
  "list_request channelID apiKey =
     \<lparr>rq_part = ''snippet'', rq_type = ''video'', rq_q = None,
      rq_channelId = Some (to_str channelID), rq_maxResults = Some 5,
      rq_order = Some ''date'', rq_key = apiKey\<rparr>"

text \<open>The callback of \<^verbatim>\<open>ytData.items.map\<close> (lines 97 to 103).\<close>

definition to_video :: "item \<Rightarrow> exn + video" where
  "to_video it =
     (case item_id it of
        None \<Rightarrow> Inl TypeError
      | Some i \<Rightarrow>
          (case item_snippet it of
             None \<Rightarrow> Inl TypeError
           | Some sn \<Rightarrow>
               (case snippet_thumbnails sn of
                  None \<Rightarrow> Inl TypeError
                | Some ths \<Rightarrow>
                    (case thumb_default ths of
                       None \<Rightarrow> Inl TypeError
                     | Some th \<Rightarrow>
                         Inr (Video (id_videoId i) (snippet_title sn)
                                (''https://www.youtube.com/watch?v='' @ to_str (id_videoId i))
                                (snippet_publishedAt sn) (thumb_url th))))))"

fun map_videos :: "item list \<Rightarrow> exn + video list" where
  "map_videos [] = Inr []"
| "map_videos (it # its) =
     (case to_video it of
        Inl x \<Rightarrow> Inl x
      | Inr v \<Rightarrow> (case map_videos its of Inl x \<Rightarrow> Inl x | Inr vs \<Rightarrow> Inr (v # vs)))"

text \<open>Step 5 (lines 76 to 93): no video found.\<close>

definition no_videos :: "jsval \<Rightarrow> jsval \<Rightarrow> obj option \<Rightarrow> world \<Rightarrow> world" where
  "no_videos jobID email jobData w =
     emit ''yt.videos.error''
       [''jobID'' \<mapsto> jobID, ''email'' \<mapsto> email,
        ''error'' \<mapsto> Str ''No videos found for channel'']
       (state_set (job_key jobID)
          ((spread jobData)(''status'' \<mapsto> Str ''failed'', ''error'' \<mapsto> Str ''no videos found''))
          w)"

text \<open>Lines 110 to 123: the videos are stored and announced.\<close>

definition videos_fetched ::
  "jsval \<Rightarrow> jsval \<Rightarrow> jsval \<Rightarrow> obj option \<Rightarrow> video list \<Rightarrow> world \<Rightarrow> world" where
  "videos_fetched jobID email channelName jobData videos w =
     emit ''yt.videos.fetched''
       [''jobID'' \<mapsto> jobID, ''videos'' \<mapsto> Videos videos,
        ''channelName'' \<mapsto> channelName, ''email'' \<mapsto> email]
       (state_set (job_key jobID)
          ((spread jobData)(''status'' \<mapsto> Str ''videos fetched'', ''videos'' \<mapsto> Videos videos))
          w)"

text \<open>The \<^verbatim>\<open>try\<close> block (lines 44 to 123).\<close>

definition fetch_try :: "env \<Rightarrow> obj \<Rightarrow> world \<Rightarrow> exn option \<times> world" where
  "fetch_try e data w =
     (let jobID = field data ''jobID'';
          email = field data ''email'';
          channelID = field data ''channelID'';
          channelName = field data ''channelName''
      in case YOUTUBE_API_KEY e of
           None \<Rightarrow> (Some missing_key, w)
         | Some apiKey \<Rightarrow>
             if apiKey = [] then (Some missing_key, w)
             else
               let (jobData, w1) = state_get (job_key jobID) w;
                   w2 = state_set (job_key jobID)
                          ((spread jobData)(''status'' \<mapsto> Str ''fetching videos'')) w1
               in (case fetch_json e (list_request channelID apiKey) of
                     Inl x \<Rightarrow> (Some x, w2)
                   | Inr ytData \<Rightarrow>
                       (case items ytData of
                          Some (first # others) \<Rightarrow>
                            (case map_videos (first # others) of
                               Inl x \<Rightarrow> (Some x, w2)
                             | Inr videos \<Rightarrow>
                                 (None, videos_fetched jobID email channelName jobData videos w2))
                        | _ \<Rightarrow> (None, no_videos jobID email jobData w2))))"

text \<open>The \<^verbatim>\<open>catch\<close> block (lines 125 to 149).\<close>

definition fetch_catch :: "env \<Rightarrow> obj \<Rightarrow> exn \<Rightarrow> world \<Rightarrow> world" where
  "fetch_catch e data x w =
     (let jobID = field data ''jobID'';
          email = field data ''email''
      in if \<not> truthy jobID \<or> \<not> truthy email then w
         else
           let (jobData, w1) = state_get (job_key jobID) w;
               w2 = state_set (job_key jobID)
                      ((spread jobData)(''status'' \<mapsto> Str ''failed'',
                                        ''error'' \<mapsto> Str (message e x))) w1
           in emit ''yt.videos.error''
                [''jobID'' \<mapsto> jobID, ''email'' \<mapsto> email,
                 ''error'' \<mapsto> Str (''Failed to fetch videos: '' @ message e x)] w2)"

definition fetchVideos_handler :: "env \<Rightarrow> obj option \<Rightarrow> world \<Rightarrow> world" where
  "fetchVideos_handler e eventData w =
     (case fetch_try e (payload eventData) w of
        (None, w') \<Rightarrow> w'
      | (Some x, w') \<Rightarrow> fetch_catch e (payload eventData) x w')"

section \<open>The pipeline\<close>

text \<open>The operations performed between two worlds, the second reached from the first.\<close>

definition new_ops :: "world \<Rightarrow> world \<Rightarrow> op list" where
  "new_ops w w' = drop (length (trace w)) (trace w')"

text \<open>
  The subscriptions of the two \<^verbatim>\<open>config\<close> objects: \<^verbatim>\<open>yt.submit\<close> is handled by the
  resolution stage and \<^verbatim>\<open>yt.channel.resolved\<close> by the listing stage. No handler of the
  repository subscribes to the other topics.
\<close>

definition deliver :: "env \<Rightarrow> string \<times> obj \<Rightarrow> world \<Rightarrow> world" where
  "deliver e ev w =
     (if fst ev = ''yt.submit'' then resolveChannel_handler e (Some (snd ev)) w
      else if fst ev = ''yt.channel.resolved'' then fetchVideos_handler e (Some (snd ev)) w
      else w)"

text \<open>
  The bus delivers at least once: an event may reach its subscriber again, at any later
  time. A sequence of deliveries, in any order and with repetitions.
\<close>

definition deliveries :: "env \<Rightarrow> (string \<times> obj) list \<Rightarrow> world \<Rightarrow> world" where
  "deliveries e evs w = fold (deliver e) evs w"

text \<open>
  The run of one job in which every emitted event is delivered exactly once: the
  submission, then the events it emitted, then the events those deliveries emitted. A run
  with redelivery is such a run followed by further \<open>deliveries\<close>.
\<close>

definition run_job ::
  "(string \<Rightarrow> string) \<Rightarrow> env \<Rightarrow> obj option \<Rightarrow> world \<Rightarrow> http_response \<times> world" where
  "run_job key e b w =
     (let (resp, w1) = submit_handler key e b w;
          w2 = fold (deliver e) (emitted (new_ops w w1)) w1;
          w3 = fold (deliver e) (emitted (new_ops w1 w2)) w2
      in (resp, w3))"

text \<open>The records written under one key, in order.\<close>

definition writes_to :: "string \<Rightarrow> op list \<Rightarrow> obj list" where
  "writes_to k ops = map snd (filter (\<lambda>kv. fst kv = k) (writes ops))"

text \<open>
  The position of a status in the pipeline order. The source's literals stand for the
  five statuses \<^verbatim>\<open>queued\<close>, \<^verbatim>\<open>resolving-channel\<close>, \<^verbatim>\<open>fetching-items\<close>, \<^verbatim>\<open>items-fetched\<close> and
  \<^verbatim>\<open>failed\<close>.
\<close>

definition status_rank :: "jsval \<Rightarrow> nat option" where
  "status_rank v =
     (if v = Str ''queued'' then Some 0
      else if v = Str ''resolving channel'' then Some 1
      else if v = Str ''fetching videos'' then Some 2
      else if v = Str ''videos fetched'' then Some 3
      else if v = Str ''failed'' then Some 4
      else None)"

definition not_backward :: "jsval \<Rightarrow> jsval \<Rightarrow> bool" where
  "not_backward a b =
     (case status_rank a of
        None \<Rightarrow> False
      | Some i \<Rightarrow> (case status_rank b of None \<Rightarrow> False | Some j \<Rightarrow> i \<le> j))"

text \<open>The key and the status of each write, in order.\<close>

definition stat_writes :: "op list \<Rightarrow> (string \<times> jsval) list" where
  "stat_writes ops = map (\<lambda>kv. (fst kv, field (snd kv) ''status'')) (writes ops)"


text \<open>\<^verbatim>\<open>item.snippet.publishedAt\<close>, where the item has a snippet.\<close>

definition item_publishedAt :: "item \<Rightarrow> jsval" where
  "item_publishedAt it =
     (case item_snippet it of None \<Rightarrow> Undef | Some sn \<Rightarrow> snippet_publishedAt sn)"



text \<open>
  Modelled from the spec: the external item-listing capability (sections 4.5 and 6) is not
  code of the repository. For a channel whose available items are \<open>available\<close>, asked with
  \<^verbatim>\<open>order=date\<close> and \<^verbatim>\<open>maxResults\<close>, it answers with the most recently published items,
  ordered by publish date descending, up to the number asked for.
\<close>

definition by_date :: "item list \<Rightarrow> item list" where
  "by_date available = rev (sort_key (\<lambda>it. to_str (item_publishedAt it)) available)"

definition listing_answer :: "item list \<Rightarrow> request \<Rightarrow> response" where
  "listing_answer available rq =
     \<lparr>items = Some
        (let ordered = (if rq_order rq = Some ''date'' then by_date available else available)
         in case rq_maxResults rq of None \<Rightarrow> ordered | Some n \<Rightarrow> take n ordered)\<rparr>"

text \<open>An answer to a request holds no more items than the request asked for.\<close>

definition honours_limit :: "request \<Rightarrow> string + response \<Rightarrow> bool" where
  "honours_limit rq answer =
     (case answer of
        Inl m \<Rightarrow> True
      | Inr r \<Rightarrow>
          (case items r of
             None \<Rightarrow> True
           | Some its \<Rightarrow> (case rq_maxResults rq of None \<Rightarrow> True | Some n \<Rightarrow> length its \<le> n)))"

section \<open>Concrete runs\<close>

definition acme_channel :: item where
  "acme_channel =
     \<lparr>item_id = Some \<lparr>id_channelId = Str ''UC123'', id_videoId = Undef\<rparr>,
      item_snippet = Some \<lparr>snippet_title = Str ''Acme'',
                            snippet_publishedAt = Str ''2015-03-01T00:00:00Z'',
                            snippet_thumbnails = None\<rparr>\<rparr>"

definition acme_video :: "string \<Rightarrow> string \<Rightarrow> item" where
  "acme_video vid day =
     \<lparr>item_id = Some \<lparr>id_channelId = Str ''UC123'', id_videoId = Str vid\<rparr>,
      item_snippet = Some \<lparr>snippet_title = Str (''Video '' @ vid),
                            snippet_publishedAt = Str (''2025-01-'' @ day @ ''T00:00:00Z''),
                            snippet_thumbnails =
                              Some \<lparr>thumb_default = Some \<lparr>thumb_url = Str (''https://i.ytimg.com/'' @ vid)\<rparr>\<rparr>\<rparr>\<rparr>"

text \<open>
  An environment whose handle search for \<^verbatim>\<open>acme\<close> answers \<open>primary\<close>, whose raw-text
  search for \<^verbatim>\<open>@acme\<close> answers \<open>fallback\<close>, and whose video listing answers \<open>listed\<close>.
\<close>

definition demo_env :: "item list option \<Rightarrow> item list option \<Rightarrow> item list option \<Rightarrow> env" where
  "demo_env primary fallback listed =
     \<lparr>YOUTUBE_API_KEY = Some ''secret'',
      fetch = (\<lambda>rq. if rq_type rq = ''channel''
                     then (if rq_q rq = Some ''acme'' then Inr \<lparr>items = primary\<rparr>
                           else Inr \<lparr>items = fallback\<rparr>)
                     else Inr \<lparr>items = listed\<rparr>),
      date_now = 5,
      random36 = ''0.abc'',
      iso_now = ''2025-01-08T00:00:00.000Z'',
      typeErrorMessage = ''Cannot read properties of undefined''\<rparr>"

definition demo_body :: obj where
  "demo_body = [''channel'' \<mapsto> Str ''@acme'', ''email'' \<mapsto> Str ''a@b.co'']"

definition demo_event :: obj where
  "demo_event =
     [''jobID'' \<mapsto> Str ''job_5_abc'', ''channel'' \<mapsto> Str ''@acme'', ''email'' \<mapsto> Str ''a@b.co'']"

definition demo_resolved :: obj where
  "demo_resolved =
     [''jobID'' \<mapsto> Str ''job_5_abc'', ''channelID'' \<mapsto> Str ''UC123'',
      ''channelName'' \<mapsto> Str ''Acme'', ''email'' \<mapsto> Str ''a@b.co'']"

definition demo_record :: obj where
  "demo_record =
     [''jobID'' \<mapsto> Str ''job_5_abc'', ''channel'' \<mapsto> Str ''@acme'', ''email'' \<mapsto> Str ''a@b.co'',
      ''status'' \<mapsto> Str ''queued'', ''createdAt'' \<mapsto> Str ''2025-01-08T00:00:00.000Z'']"

definition empty_world :: world where
  "empty_world = \<lparr>store = Map.empty, trace = []\<rparr>"

definition demo_world :: world where
  "demo_world = \<lparr>store = [''job: job_5_abc'' \<mapsto> demo_record], trace = []\<rparr>"


text \<open>An event that carries a job identifier and nothing else.\<close>

definition bare_event :: obj where
  "bare_event = [''jobID'' \<mapsto> Str ''job_5_abc'']"

definition seven_videos :: "item list" where
  "seven_videos =
     [acme_video ''v7'' ''07'', acme_video ''v6'' ''06'', acme_video ''v5'' ''05'',
      acme_video ''v4'' ''04'', acme_video ''v3'' ''03'', acme_video ''v2'' ''02'',
      acme_video ''v1'' ''01'']"

section \<open>Basic facts\<close>

subsection \<open>Job identifiers\<close>

lemma digit_char_is_digit:
  assumes "d < 10"
  shows "is_digit (digit_char d)"
proof -
  from assms have "d \<in> {0, 1, 2, 3, 4, 5, 6, 7, 8, 9}" by auto
  then show ?thesis by (auto simp: digit_char_def is_digit_def)
qed

lemma show_nat_digits: "list_all is_digit (show_nat n)"
proof (induction n rule: show_nat.induct)
  case (1 n)
  show ?case
  proof (cases "n < 10")
    case True
    then show ?thesis by (subst show_nat.simps) (simp add: digit_char_is_digit)
  next
    case False
    with 1 show ?thesis by (subst show_nat.simps) (simp add: digit_char_is_digit)
  qed
qed

lemma show_nat_nonempty: "show_nat n \<noteq> []"
  by (subst show_nat.simps) simp

lemma underscore_not_digit: "\<not> is_digit CHR ''_''"
  by (simp add: is_digit_def)

lemma base36_alnum: "is_base36 c \<Longrightarrow> is_alnum c"
  by (auto simp: is_base36_def is_alnum_def)

lemma random36_suffix_alnum:
  assumes "is_random36 r"
  shows "list_all is_alnum (substring 2 9 r)"
proof -
  from assms have "list_all is_base36 (drop 2 r)"
    by (auto simp: is_random36_def)
  then have "list_all is_alnum (drop 2 r)"
    by (simp add: list_all_iff base36_alnum)
  then show ?thesis
    by (auto simp: substring_def list_all_iff dest: in_set_takeD)
qed

lemma new_jobID_shape:
  assumes "is_random36 (random36 e)"
  shows "jobID_shape (new_jobID e)"
proof -
  let ?ds = "show_nat (date_now e)"
  let ?sfx = "substring 2 9 (random36 e)"
  have ds: "\<And>x. x \<in> set ?ds \<Longrightarrow> is_digit x"
    using show_nat_digits [of "date_now e"] by (simp add: list_all_iff)
  have tw: "takeWhile is_digit (?ds @ ''_'' @ ?sfx) = ?ds"
    using ds by (simp add: takeWhile_append2 underscore_not_digit)
  have dw: "dropWhile is_digit (?ds @ ''_'' @ ?sfx) = ''_'' @ ?sfx"
    using ds by (simp add: dropWhile_append2 underscore_not_digit)
  show ?thesis
    unfolding jobID_shape_def new_jobID_def
    using tw dw show_nat_nonempty random36_suffix_alnum [OF assms] by simp
qed

subsection \<open>Store and bus operations\<close>

lemma state_get_simps [simp]:
  "fst (state_get k w) = store w k"
  "store (snd (state_get k w)) = store w"
  "trace (snd (state_get k w)) = trace w @ [StateGet k (store w k)]"
  by (simp_all add: state_get_def)

lemma state_set_simps [simp]:
  "store (state_set k v w) = (store w)(k \<mapsto> v)"
  "trace (state_set k v w) = trace w @ [StateSet k v]"
  by (simp_all add: state_set_def)

lemma emit_simps [simp]:
  "store (emit t d w) = store w"
  "trace (emit t d w) = trace w @ [Emit t d]"
  by (simp_all add: emit_def)

lemma spread_simps [simp]:
  "spread None = Map.empty"
  "spread (Some r) = r"
  by (simp_all add: spread_def)

lemma new_ops_append: "trace w' = trace w @ ops \<Longrightarrow> new_ops w w' = ops"
  by (simp add: new_ops_def)

lemma new_ops_self [simp]: "new_ops w w = []"
  by (simp add: new_ops_def)

lemma writes_append [simp]: "writes (xs @ ys) = writes xs @ writes ys"
  by (induction xs rule: writes.induct) simp_all

lemma emitted_append [simp]: "emitted (xs @ ys) = emitted xs @ emitted ys"
  by (induction xs rule: emitted.induct) simp_all

subsection \<open>The stages, case by case\<close>

lemma resolve_try_cases:
  fixes e data w
  defines "k \<equiv> job_key (field data ''jobID'')"
  defines "w2 \<equiv> state_set k ((spread (store w k))(''status'' \<mapsto> Str ''resolving channel''))
                   (snd (state_get k w))"
  shows "((YOUTUBE_API_KEY e = None \<or> YOUTUBE_API_KEY e = Some []) \<and>
            resolve_try e data w = (Some missing_key, w))
       \<or> (\<exists>x. resolve_try e data w = (Some x, w2))
       \<or> (\<exists>channelID channelName.
            resolve_try e data w =
              (None, resolve_finish (field data ''jobID'') (field data ''email'') (store w k)
                       channelID channelName w2))"
  unfolding w2_def k_def
  by (auto simp: resolve_try_def Let_def split_def split: option.split sum.split)

lemma fetch_try_cases:
  fixes e data w
  defines "k \<equiv> job_key (field data ''jobID'')"
  defines "w2 \<equiv> state_set k ((spread (store w k))(''status'' \<mapsto> Str ''fetching videos''))
                   (snd (state_get k w))"
  shows "((YOUTUBE_API_KEY e = None \<or> YOUTUBE_API_KEY e = Some []) \<and>
            fetch_try e data w = (Some missing_key, w))
       \<or> (\<exists>x. fetch_try e data w = (Some x, w2))
       \<or> fetch_try e data w =
            (None, no_videos (field data ''jobID'') (field data ''email'') (store w k) w2)
       \<or> (\<exists>videos.
            fetch_try e data w =
              (None, videos_fetched (field data ''jobID'') (field data ''email'')
                       (field data ''channelName'') (store w k) videos w2))"
  unfolding w2_def k_def
  by (auto simp: fetch_try_def Let_def split_def simp del: map_videos.simps
           split: option.split sum.split list.split)

lemmas after_try =
  resolveChannel_handler_def resolve_catch_def resolve_finish_def
  fetchVideos_handler_def fetch_catch_def no_videos_def videos_fetched_def Let_def split_def


lemma resolve_trace:
  "trace (resolveChannel_handler e ev w) = trace w @ new_ops w (resolveChannel_handler e ev w)"
  using resolve_try_cases [of e "payload ev" w]
  by (elim disjE exE conjE) (simp_all add: after_try new_ops_def)

lemma fetch_trace:
  "trace (fetchVideos_handler e ev w) = trace w @ new_ops w (fetchVideos_handler e ev w)"
  using fetch_try_cases [of e "payload ev" w]
  by (elim disjE exE conjE) (simp_all add: after_try new_ops_def)

lemma resolve_frame:
  assumes "kr \<in> set (writes (new_ops w (resolveChannel_handler e ev w)))"
  shows "fst kr = job_key (field (payload ev) ''jobID'') \<and>
         (\<forall>f. f \<notin> {''status'', ''error'', ''videos''} \<longrightarrow>
              snd kr f = spread (store w (job_key (field (payload ev) ''jobID''))) f)"
  using resolve_try_cases [of e "payload ev" w] assms
  by (elim disjE exE conjE) (auto simp: after_try new_ops_def split: if_splits)

lemma fetch_frame:
  assumes "kr \<in> set (writes (new_ops w (fetchVideos_handler e ev w)))"
  shows "fst kr = job_key (field (payload ev) ''jobID'') \<and>
         (\<forall>f. f \<notin> {''status'', ''error'', ''videos''} \<longrightarrow>
              snd kr f = spread (store w (job_key (field (payload ev) ''jobID''))) f)"
  using fetch_try_cases [of e "payload ev" w] assms
  by (elim disjE exE conjE) (auto simp: after_try new_ops_def split: if_splits)


lemma submit_trace:
  "trace (snd (submit_handler key e b w)) = trace w @ new_ops w (snd (submit_handler key e b w))"
  by (simp add: submit_handler_def Let_def new_ops_def split: option.split)

lemma submit_summary:
  fixes key e b w
  defines "ops \<equiv> new_ops w (snd (submit_handler key e b w))"
  shows "ops = []
       \<or> (\<exists>d. emitted ops = [(''yt.submit'', d)] \<and> field d ''jobID'' = Str (new_jobID e))
          \<and> stat_writes ops = [(key (new_jobID e), Str ''queued'')]"
  unfolding ops_def
  by (simp add: submit_handler_def Let_def new_ops_def stat_writes_def field_def split: option.split)

lemma resolve_summary:
  fixes e ev w
  defines "ops \<equiv> new_ops w (resolveChannel_handler e ev w)"
    and "k \<equiv> job_key (field (payload ev) ''jobID'')"
  shows "((emitted ops = [] \<or> (\<exists>d. emitted ops = [(''yt.channel.error'', d)]))
          \<and> stat_writes ops \<in>
              {[], [(k, Str ''failed'')], [(k, Str ''resolving channel'')],
               [(k, Str ''resolving channel''), (k, Str ''failed'')]})
       \<or> ((\<exists>d. emitted ops = [(''yt.channel.resolved'', d)]
                \<and> field d ''jobID'' = field (payload ev) ''jobID'')
          \<and> stat_writes ops = [(k, Str ''resolving channel'')])"
  using resolve_try_cases [of e "payload ev" w] unfolding ops_def k_def
  by (elim disjE exE conjE) (auto simp: after_try new_ops_def stat_writes_def field_def)

lemma fetch_summary:
  fixes e ev w
  defines "ops \<equiv> new_ops w (fetchVideos_handler e ev w)"
    and "k \<equiv> job_key (field (payload ev) ''jobID'')"
  shows "stat_writes ops \<in>
           {[], [(k, Str ''failed'')], [(k, Str ''fetching videos'')],
            [(k, Str ''fetching videos''), (k, Str ''failed'')],
            [(k, Str ''fetching videos''), (k, Str ''videos fetched'')]}"
  using fetch_try_cases [of e "payload ev" w] unfolding ops_def k_def
  by (elim disjE exE conjE) (auto simp: after_try new_ops_def stat_writes_def field_def)

subsection \<open>One job through the pipeline\<close>

lemma new_ops_trans:
  assumes "trace w1 = trace w @ new_ops w w1" and "trace w2 = trace w1 @ new_ops w1 w2"
  shows "new_ops w w2 = new_ops w w1 @ new_ops w1 w2"
proof -
  have "trace w2 = trace w @ (new_ops w w1 @ new_ops w1 w2)"
    using assms by simp
  then show ?thesis by (rule new_ops_append)
qed

lemma stat_writes_append [simp]: "stat_writes (xs @ ys) = stat_writes xs @ stat_writes ys"
  by (simp add: stat_writes_def)

lemma stat_writes_Nil [simp]: "stat_writes [] = []"
  by (simp add: stat_writes_def)

lemma deliver_error [simp]:
  "deliver e (''yt.channel.error'', d) w = w"
  by (simp add: deliver_def)

lemma deliver_submit [simp]:
  "deliver e (''yt.submit'', d) w = resolveChannel_handler e (Some d) w"
  by (simp add: deliver_def)

lemma deliver_resolved [simp]:
  "deliver e (''yt.channel.resolved'', d) w = fetchVideos_handler e (Some d) w"
  by (simp add: deliver_def)

lemmas rank_defs = status_rank_def not_backward_def

lemma run_job_statuses:
  fixes key e b w
  defines "J \<equiv> new_jobID e"
  defines "ops \<equiv> new_ops w (snd (run_job key e b w))"
  shows "stat_writes ops = []
       \<or> (\<exists>S2 S3. stat_writes ops = (key J, Str ''queued'') # S2 @ S3
            \<and> S2 \<in> {[], [(job_key (Str J), Str ''failed'')],
                     [(job_key (Str J), Str ''resolving channel'')],
                     [(job_key (Str J), Str ''resolving channel''), (job_key (Str J), Str ''failed'')]}
            \<and> S3 \<in> {[], [(job_key (Str J), Str ''failed'')],
                     [(job_key (Str J), Str ''fetching videos'')],
                     [(job_key (Str J), Str ''fetching videos''), (job_key (Str J), Str ''failed'')],
                     [(job_key (Str J), Str ''fetching videos''),
                      (job_key (Str J), Str ''videos fetched'')]}
            \<and> (S3 \<noteq> [] \<longrightarrow> S2 = [(job_key (Str J), Str ''resolving channel'')]))"
proof -
  define w1 where "w1 = snd (submit_handler key e b w)"
  define w2 where "w2 = fold (deliver e) (emitted (new_ops w w1)) w1"
  define w3 where "w3 = fold (deliver e) (emitted (new_ops w1 w2)) w2"
  have run: "snd (run_job key e b w) = w3"
    by (simp add: run_job_def w1_def w2_def w3_def split_def Let_def)
  have t1: "trace w1 = trace w @ new_ops w w1"
    unfolding w1_def by (rule submit_trace)
  from submit_summary [of w key e b]
  consider (rejected) "new_ops w w1 = []"
    | (accepted) d where "emitted (new_ops w w1) = [(''yt.submit'', d)]"
        "field d ''jobID'' = Str J" "stat_writes (new_ops w w1) = [(key J, Str ''queued'')]"
    unfolding w1_def J_def by blast
  then show ?thesis
  proof cases
    case rejected
    then have "w2 = w1" by (simp add: w2_def)
    then have "w3 = w1" by (simp add: w3_def)
    then show ?thesis using rejected by (simp add: ops_def run)
  next
    case accepted
    have w2: "w2 = resolveChannel_handler e (Some d) w1"
      using accepted(1) by (simp add: w2_def)
    have t2: "trace w2 = trace w1 @ new_ops w1 w2"
      unfolding w2 by (rule resolve_trace)
    have k: "job_key (field (payload (Some d)) ''jobID'') = job_key (Str J)"
      using accepted(2) by (simp add: payload_def)
    from resolve_summary [of w1 e "Some d"]
    consider (stopped) "emitted (new_ops w1 w2) = [] \<or> (\<exists>d'. emitted (new_ops w1 w2) = [(''yt.channel.error'', d')])"
        "stat_writes (new_ops w1 w2) \<in>
              {[], [(job_key (Str J), Str ''failed'')], [(job_key (Str J), Str ''resolving channel'')],
               [(job_key (Str J), Str ''resolving channel''), (job_key (Str J), Str ''failed'')]}"
      | (resolved) d' where "emitted (new_ops w1 w2) = [(''yt.channel.resolved'', d')]"
          "field d' ''jobID'' = Str J"
          "stat_writes (new_ops w1 w2) = [(job_key (Str J), Str ''resolving channel'')]"
      unfolding w2 [symmetric] k using accepted(2) by (auto simp: payload_def)
    then show ?thesis
    proof cases
      case stopped
      from stopped(1) have "w3 = w2" by (auto simp: w3_def)
      then have "ops = new_ops w w1 @ new_ops w1 w2"
        using new_ops_trans [OF t1 t2] by (simp add: ops_def run)
      then have "stat_writes ops = (key J, Str ''queued'') # stat_writes (new_ops w1 w2) @ []"
        using accepted(3) by simp
      with stopped(2) show ?thesis by blast
    next
      case resolved
      have w3: "w3 = fetchVideos_handler e (Some d') w2"
        using resolved(1) by (simp add: w3_def)
      have t3: "trace w3 = trace w2 @ new_ops w2 w3"
        unfolding w3 by (rule fetch_trace)
      have k': "job_key (field (payload (Some d')) ''jobID'') = job_key (Str J)"
        using resolved(2) by (simp add: payload_def)
      have s3: "stat_writes (new_ops w2 w3) \<in>
           {[], [(job_key (Str J), Str ''failed'')], [(job_key (Str J), Str ''fetching videos'')],
            [(job_key (Str J), Str ''fetching videos''), (job_key (Str J), Str ''failed'')],
            [(job_key (Str J), Str ''fetching videos''), (job_key (Str J), Str ''videos fetched'')]}"
        using fetch_summary [of w2 e "Some d'"] unfolding w3 [symmetric] k' .
      have "new_ops w w3 = new_ops w w1 @ new_ops w1 w2 @ new_ops w2 w3"
      proof -
        have "trace w3 = trace w1 @ new_ops w1 w2 @ new_ops w2 w3"
          using t2 t3 by simp
        then have "trace w3 = trace w @ (new_ops w w1 @ new_ops w1 w2 @ new_ops w2 w3)"
          using t1 by simp
        then show ?thesis by (rule new_ops_append)
      qed
      then have "stat_writes ops =
          (key J, Str ''queued'') # stat_writes (new_ops w1 w2) @ stat_writes (new_ops w2 w3)"
        using accepted(3) by (simp add: ops_def run)
      with resolved(3) s3 show ?thesis by blast
    qed
  qed
qed

lemma writes_to_status:
  "map (\<lambda>r. field r ''status'') (writes_to k ops) =
     map snd (filter (\<lambda>x. fst x = k) (stat_writes ops))"
  by (simp add: writes_to_def stat_writes_def filter_map comp_def)

subsection \<open>Deliveries in any number and order\<close>

lemma deliver_trace:
  "trace (deliver e ev w) = trace w @ new_ops w (deliver e ev w)"
  using resolve_trace [of e "Some (snd ev)" w] fetch_trace [of e "Some (snd ev)" w]
  by (simp add: deliver_def)

lemma resolve_status:
  assumes "kv \<in> set (stat_writes (new_ops w (resolveChannel_handler e ev w)))"
  shows "snd kv \<in> {Str ''queued'', Str ''resolving channel'', Str ''fetching videos'',
                    Str ''videos fetched'', Str ''failed''}"
proof -
  from resolve_summary [of w e ev]
  have "stat_writes (new_ops w (resolveChannel_handler e ev w)) \<in>
              {[], [(job_key (field (payload ev) ''jobID''), Str ''failed'')],
               [(job_key (field (payload ev) ''jobID''), Str ''resolving channel'')],
               [(job_key (field (payload ev) ''jobID''), Str ''resolving channel''),
                (job_key (field (payload ev) ''jobID''), Str ''failed'')]}"
    by blast
  with assms show ?thesis by (elim insertE emptyE) auto
qed

lemma fetch_status:
  assumes "kv \<in> set (stat_writes (new_ops w (fetchVideos_handler e ev w)))"
  shows "snd kv \<in> {Str ''queued'', Str ''resolving channel'', Str ''fetching videos'',
                    Str ''videos fetched'', Str ''failed''}"
  using fetch_summary [of w e ev] assms by (elim insertE emptyE) auto

lemma deliver_status:
  assumes "kv \<in> set (stat_writes (new_ops w (deliver e ev w)))"
  shows "snd kv \<in> {Str ''queued'', Str ''resolving channel'', Str ''fetching videos'',
                    Str ''videos fetched'', Str ''failed''}"
proof (cases "fst ev = ''yt.submit''")
  case True
  then have eq: "deliver e ev w = resolveChannel_handler e (Some (snd ev)) w"
    by (simp add: deliver_def)
  from assms [unfolded eq] show ?thesis by (rule resolve_status)
next
  case False
  show ?thesis
  proof (cases "fst ev = ''yt.channel.resolved''")
    case True
    with False have eq: "deliver e ev w = fetchVideos_handler e (Some (snd ev)) w"
      by (simp add: deliver_def)
    from assms [unfolded eq] show ?thesis by (rule fetch_status)
  next
    case no: False
    with False have eq: "deliver e ev w = w" by (simp add: deliver_def)
    from assms [unfolded eq] show ?thesis by simp
  qed
qed

lemma deliveries_trace:
  "trace (deliveries e evs w) = trace w @ new_ops w (deliveries e evs w)"
proof (induction evs arbitrary: w)
  case Nil
  show ?case by (simp add: deliveries_def)
next
  case (Cons ev evs)
  let ?w1 = "deliver e ev w"
  have d: "deliveries e (ev # evs) w = deliveries e evs ?w1"
    by (simp add: deliveries_def)
  have t: "trace (deliveries e evs ?w1) =
          trace w @ (new_ops w ?w1 @ new_ops ?w1 (deliveries e evs ?w1))"
    using Cons.IH [of ?w1] deliver_trace [of e ev w] by simp
  then have "new_ops w (deliveries e evs ?w1) =
          new_ops w ?w1 @ new_ops ?w1 (deliveries e evs ?w1)"
    by (rule new_ops_append)
  with t show ?case
    unfolding d by simp
qed

lemma deliveries_status:
  assumes "kv \<in> set (stat_writes (new_ops w (deliveries e evs w)))"
  shows "snd kv \<in> {Str ''queued'', Str ''resolving channel'', Str ''fetching videos'',
                    Str ''videos fetched'', Str ''failed''}"
  using assms
proof (induction evs arbitrary: w)
  case Nil
  then show ?case by (simp add: deliveries_def)
next
  case (Cons ev evs)
  let ?w1 = "deliver e ev w"
  have d: "deliveries e (ev # evs) w = deliveries e evs ?w1"
    by (simp add: deliveries_def)
  have "new_ops w (deliveries e evs ?w1) = new_ops w ?w1 @ new_ops ?w1 (deliveries e evs ?w1)"
    using deliver_trace [of e ev w] deliveries_trace [of e evs ?w1] by (rule new_ops_trans)
  with Cons.prems have "kv \<in> set (stat_writes (new_ops w ?w1))
      \<or> kv \<in> set (stat_writes (new_ops ?w1 (deliveries e evs ?w1)))"
    unfolding d by simp
  then show ?case
  proof
    assume "kv \<in> set (stat_writes (new_ops w ?w1))"
    then show ?thesis by (rule deliver_status)
  next
    assume "kv \<in> set (stat_writes (new_ops ?w1 (deliveries e evs ?w1)))"
    then show ?thesis by (rule Cons.IH)
  qed
qed

lemma stat_writes_member:
  "kr \<in> set (writes ops) \<Longrightarrow> (fst kr, field (snd kr) ''status'') \<in> set (stat_writes ops)"
  by (auto simp: stat_writes_def)

subsection \<open>The video mapping\<close>


subsection \<open>The listing capability\<close>


lemma by_date_length [simp]: "length (by_date xs) = length xs"
  by (simp add: by_date_def)

lemma by_date_set [simp]: "set (by_date xs) = set xs"
  by (simp add: by_date_def)


lemma listing_answer_honours: "honours_limit rq (Inr (listing_answer available rq))"
  by (simp add: honours_limit_def listing_answer_def Let_def split: option.split)



subsection \<open>Unfolding for concrete runs\<close>

lemmas run_defs =
  run_job_def submit_handler_def deliver_def new_ops_def
  resolveChannel_handler_def resolve_try_def resolve_lookup_def resolve_finish_def resolve_catch_def
  fetchVideos_handler_def fetch_try_def no_videos_def videos_fetched_def fetch_catch_def
  fetch_json_def state_get_def state_set_def emit_def Let_def split_def
  new_jobID_def show_nat.simps digit_char_def substring_def
  emailRegex_def not_space_at_def is_space_def to_video_def

lemmas resolve_defs =
  resolveChannel_handler_def resolve_try_def resolve_lookup_def resolve_finish_def
  fetch_json_def Let_def split_def

lemmas fetch_defs =
  fetchVideos_handler_def fetch_try_def no_videos_def videos_fetched_def
  fetch_json_def Let_def split_def

lemmas demo_defs =
  demo_env_def demo_event_def demo_resolved_def demo_record_def demo_world_def demo_body_def
  empty_world_def acme_channel_def payload_def field_def search_request_def
  list_request_def job_key_def key_line66_def key_line154_def

subsection \<open>The listing stage on a returned list\<close>


section \<open>The submission stage\<close>

text \<open>
  Claim C4. A submission whose \<^verbatim>\<open>channel\<close> and \<^verbatim>\<open>email\<close> are present (truthy, which is what
  the handler tests) and whose email matches the pattern makes the handler write one new
  record with status \<^verbatim>\<open>queued\<close> under the key of a fresh identifier, emit exactly one
  \<^verbatim>\<open>yt.submit\<close> event carrying the identifier, the channel and the email, and answer 201
  with the identifier. The identifier is \<^verbatim>\<open>job_\<close>, the decimal digits of the clock, an
  underscore and at most seven alphanumerics cut from the random number's text (at least
  one, unless the random number is exactly zero). This holds for both copies of the
  handler, whatever the key.
\<close>

theorem submit_valid_creates_job:
  fixes key e b w
  defines "r \<equiv> submit_handler key e (Some b) w"
    and "jobID \<equiv> new_jobID e"
  assumes "truthy (field b ''channel'')"
    and "truthy (field b ''email'')"
    and "rx_test emailRegex (to_str (field b ''email''))"
    and "is_random36 (random36 e)"
  shows "jobID_shape jobID
       \<and> jobID = ''job_'' @ show_nat (date_now e) @ ''_'' @ take 7 (drop 2 (random36 e))
       \<and> (random36 e \<noteq> ''0'' \<longrightarrow> take 7 (drop 2 (random36 e)) \<noteq> [])
       \<and> fst r = \<lparr>status = 201,
                   body = [''success'' \<mapsto> Boolean True, ''jobID'' \<mapsto> Str jobID,
                           ''message'' \<mapsto>
                             Str ''Job submitted successfully. You will get an email soon.'']\<rparr>
       \<and> trace (snd r) = trace w @
             [StateSet (key jobID)
                [''jobID'' \<mapsto> Str jobID, ''channel'' \<mapsto> field b ''channel'',
                 ''email'' \<mapsto> field b ''email'', ''status'' \<mapsto> Str ''queued'',
                 ''createdAt'' \<mapsto> Str (iso_now e)],
              Emit ''yt.submit''
                [''jobID'' \<mapsto> Str jobID, ''channel'' \<mapsto> field b ''channel'',
                 ''email'' \<mapsto> field b ''email'']]
       \<and> store (snd r) = (store w)(key jobID \<mapsto>
                [''jobID'' \<mapsto> Str jobID, ''channel'' \<mapsto> field b ''channel'',
                 ''email'' \<mapsto> field b ''email'', ''status'' \<mapsto> Str ''queued'',
                 ''createdAt'' \<mapsto> Str (iso_now e)])"
proof -
  have "jobID_shape jobID"
    unfolding jobID_def using assms(6) by (rule new_jobID_shape)
  moreover have "jobID = ''job_'' @ show_nat (date_now e) @ ''_'' @ take 7 (drop 2 (random36 e))"
    by (simp add: jobID_def new_jobID_def substring_def)
  moreover have "random36 e \<noteq> ''0'' \<longrightarrow> take 7 (drop 2 (random36 e)) \<noteq> []"
    using assms(6) by (auto simp: is_random36_def)
  ultimately show ?thesis
    using assms(3-5) by (simp add: r_def jobID_def submit_handler_def Let_def)
qed

text \<open>The submission \<^verbatim>\<open>{channel: "@acme", email: "a@b.co"}\<close> at clock 5 and random text \<^verbatim>\<open>0.abc\<close>.\<close>

theorem submit_valid_creates_job_witness:
  "fst (submit_handler key_line66 (demo_env None None None) (Some demo_body) empty_world) =
     \<lparr>status = 201,
      body = [''success'' \<mapsto> Boolean True, ''jobID'' \<mapsto> Str ''job_5_abc'',
              ''message'' \<mapsto> Str ''Job submitted successfully. You will get an email soon.'']\<rparr>
   \<and> jobID_shape ''job_5_abc''
   \<and> emitted (trace (snd (submit_handler key_line154 (demo_env None None None)
                             (Some demo_body) empty_world))) =
       [(''yt.submit'', demo_event)]
   \<and> store (snd (submit_handler key_line154 (demo_env None None None) (Some demo_body) empty_world))
        ''job: job_5_abc'' = Some demo_record"
proof -
  let ?e = "demo_env None None None"
  have j: "new_jobID ?e = ''job_5_abc''"
    by (simp add: new_jobID_def demo_env_def show_nat.simps digit_char_def substring_def)
  have h1: "truthy (field demo_body ''channel'')" and h2: "truthy (field demo_body ''email'')"
    by (simp_all add: demo_body_def field_def)
  have h3: "rx_test emailRegex (to_str (field demo_body ''email''))"
    by (simp add: demo_body_def field_def emailRegex_def not_space_at_def is_space_def)
  have h4: "is_random36 (random36 ?e)"
    by (simp add: demo_env_def is_random36_def is_base36_def is_digit_def is_lower_def)
  have f: "field demo_body ''channel'' = Str ''@acme''" "field demo_body ''email'' = Str ''a@b.co''"
    by (simp_all add: demo_body_def field_def)
  have i: "iso_now ?e = ''2025-01-08T00:00:00.000Z''"
    by (simp add: demo_env_def)
  show ?thesis
    using submit_valid_creates_job [OF h1 h2 h3 h4, of key_line66 empty_world]
          submit_valid_creates_job [OF h1 h2 h3 h4, of key_line154 empty_world]
    unfolding j f i
    by (simp add: empty_world_def key_line154_def demo_event_def demo_record_def)
qed

text \<open>A request without a body is answered 500, and nothing is written or emitted.\<close>

lemma submit_no_body:
  "submit_handler key e None w =
     (\<lparr>status = 500, body = [''error'' \<mapsto> Str ''Internal Server Error'']\<rparr>, w)"
  by (simp add: submit_handler_def)

text \<open>
  Claim C5. A submission whose \<^verbatim>\<open>channel\<close> is missing, whose \<^verbatim>\<open>email\<close> is missing, or whose
  email does not match the pattern is answered with 400, and the handler leaves the world
  as it was: no write to the job store and no event.
\<close>

theorem submit_invalid_rejected:
  fixes key e b w
  defines "r \<equiv> submit_handler key e (Some b) w"
  assumes "\<not> truthy (field b ''channel'') \<or> \<not> truthy (field b ''email'')
           \<or> \<not> rx_test emailRegex (to_str (field b ''email''))"
  shows "status (fst r) = 400 \<and> snd r = w \<and> new_ops w (snd r) = []"
  using assms by (auto simp: submit_handler_def Let_def)

text \<open>An email without a dot after the \<^verbatim>\<open>@\<close>, and a submission without a channel.\<close>

theorem submit_invalid_rejected_witness:
  "status (fst (submit_handler key_line66 (demo_env None None None)
                  (Some [''channel'' \<mapsto> Str ''@acme'', ''email'' \<mapsto> Str ''a@b'']) empty_world)) = 400
   \<and> snd (submit_handler key_line66 (demo_env None None None)
                  (Some [''channel'' \<mapsto> Str ''@acme'', ''email'' \<mapsto> Str ''a@b'']) empty_world) = empty_world
   \<and> status (fst (submit_handler key_line154 (demo_env None None None)
                  (Some [''email'' \<mapsto> Str ''a@b.co'']) empty_world)) = 400
   \<and> snd (submit_handler key_line154 (demo_env None None None)
                  (Some [''email'' \<mapsto> Str ''a@b.co'']) empty_world) = empty_world"
proof -
  have h1: "\<not> truthy (field [''channel'' \<mapsto> Str ''@acme'', ''email'' \<mapsto> Str ''a@b''] ''channel'')
        \<or> \<not> truthy (field [''channel'' \<mapsto> Str ''@acme'', ''email'' \<mapsto> Str ''a@b''] ''email'')
        \<or> \<not> rx_test emailRegex
              (to_str (field [''channel'' \<mapsto> Str ''@acme'', ''email'' \<mapsto> Str ''a@b''] ''email''))"
    by (simp add: field_def emailRegex_def not_space_at_def is_space_def)
  have h2: "\<not> truthy (field [''email'' \<mapsto> Str ''a@b.co''] ''channel'')
        \<or> \<not> truthy (field [''email'' \<mapsto> Str ''a@b.co''] ''email'')
        \<or> \<not> rx_test emailRegex (to_str (field [''email'' \<mapsto> Str ''a@b.co''] ''email''))"
    by (simp add: field_def)
  show ?thesis
    using submit_invalid_rejected [OF h1, of key_line66 "demo_env None None None" empty_world]
          submit_invalid_rejected [OF h2, of key_line154 "demo_env None None None" empty_world]
    by simp
qed

section \<open>The resolution stage\<close>

text \<open>
  Claim C1, as stated, fails: when resolution succeeds the stage emits the resolved event,
  but the record it leaves in the store has neither a \<^verbatim>\<open>channelID\<close> nor a \<^verbatim>\<open>channelName\<close>
  field. Here the handle \<^verbatim>\<open>@acme\<close> resolves to \<^verbatim>\<open>UC123\<close>, \<^verbatim>\<open>Acme\<close>.
\<close>

theorem resolved_record_lacks_channelID:
  "emitted (trace (resolveChannel_handler (demo_env (Some [acme_channel]) None None)
            (Some demo_event) demo_world)) = [(''yt.channel.resolved'', demo_resolved)]
   \<and> store (resolveChannel_handler (demo_env (Some [acme_channel]) None None)
            (Some demo_event) demo_world) ''job: job_5_abc'' =
       Some (demo_record(''status'' \<mapsto> Str ''resolving channel''))
   \<and> (demo_record(''status'' \<mapsto> Str ''resolving channel'')) ''channelID'' = None
   \<and> (demo_record(''status'' \<mapsto> Str ''resolving channel'')) ''channelName'' = None"
  by (simp add: resolve_defs demo_defs)

text \<open>
  Claim C1, amended. When the channel is a handle whose search returns a first match with
  a truthy channel identifier, the stage reads the record, writes it back with status
  \<^verbatim>\<open>resolving channel\<close> and emits one \<^verbatim>\<open>yt.channel.resolved\<close> event carrying the job
  identifier, the channel identifier, the channel name and the email. That is all it does:
  the channel identifier and name travel in the event only, and the \<^verbatim>\<open>channelID\<close> and
  \<^verbatim>\<open>channelName\<close> fields of the stored record are what they were before.
\<close>

theorem resolve_success_emits_identity:
  fixes e ev w
  defines "jobID \<equiv> field (payload ev) ''jobID''"
    and "email \<equiv> field (payload ev) ''email''"
    and "w' \<equiv> resolveChannel_handler e ev w"
  defines "k \<equiv> job_key jobID"
  assumes "YOUTUBE_API_KEY e = Some apiKey" and "apiKey \<noteq> []"
    and "field (payload ev) ''channel'' = Str c" and "take 1 c = ''@''"
    and "fetch e (search_request (drop 1 c) apiKey) = Inr searchData"
    and "items searchData = Some (first # others)"
    and "item_id first = Some i" and "item_snippet first = Some sn"
    and "truthy (id_channelId i)"
  shows "trace w' = trace w @
            [StateGet k (store w k),
             StateSet k ((spread (store w k))(''status'' \<mapsto> Str ''resolving channel'')),
             Emit ''yt.channel.resolved''
               [''jobID'' \<mapsto> jobID, ''channelID'' \<mapsto> id_channelId i,
                ''channelName'' \<mapsto> snippet_title sn, ''email'' \<mapsto> email]]
       \<and> store w' = (store w)(k \<mapsto> (spread (store w k))(''status'' \<mapsto> Str ''resolving channel''))
       \<and> spread (store w' k) ''channelID'' = spread (store w k) ''channelID''
       \<and> spread (store w' k) ''channelName'' = spread (store w k) ''channelName''"
  using assms(5-) unfolding w'_def k_def jobID_def email_def
  by (auto simp: resolve_defs)

theorem resolve_success_emits_identity_witness:
  "trace (resolveChannel_handler (demo_env (Some [acme_channel]) None None)
            (Some demo_event) demo_world) =
     [StateGet ''job: job_5_abc'' (Some demo_record),
      StateSet ''job: job_5_abc'' (demo_record(''status'' \<mapsto> Str ''resolving channel'')),
      Emit ''yt.channel.resolved'' demo_resolved]"
proof -
  let ?e = "demo_env (Some [acme_channel]) None None"
  have h1: "YOUTUBE_API_KEY ?e = Some ''secret''" and h2: "''secret'' \<noteq> []"
    and h3: "field (payload (Some demo_event)) ''channel'' = Str ''@acme''"
    and h4: "take 1 ''@acme'' = ''@''"
    and h5: "fetch ?e (search_request (drop 1 ''@acme'') ''secret'') = Inr \<lparr>items = Some [acme_channel]\<rparr>"
    and h6: "items \<lparr>items = Some [acme_channel]\<rparr> = Some (acme_channel # [])"
    and h7: "item_id acme_channel = Some \<lparr>id_channelId = Str ''UC123'', id_videoId = Undef\<rparr>"
    and h8: "item_snippet acme_channel =
               Some \<lparr>snippet_title = Str ''Acme'', snippet_publishedAt = Str ''2015-03-01T00:00:00Z'',
                     snippet_thumbnails = None\<rparr>"
    and h9: "truthy (id_channelId \<lparr>id_channelId = Str ''UC123'', id_videoId = Undef\<rparr>)"
    by (simp_all add: demo_defs)
  show ?thesis
    using resolve_success_emits_identity [OF h1 h2 h3 h4 h5 h6 h7 h8 h9, of demo_world]
    by (simp add: demo_defs)
qed

text \<open>
  Claim C6. When the channel is a handle and the search for the handle returns no match
  (no \<^verbatim>\<open>items\<close>, or an empty array), then whatever the fallback search for the raw text
  returns, the stage leaves the record with status \<^verbatim>\<open>failed\<close> and error
  \<^verbatim>\<open>Channel not found\<close>, and emits one \<^verbatim>\<open>yt.channel.error\<close> event whose payload has the two
  properties \<^verbatim>\<open>jobID\<close> and \<^verbatim>\<open>email\<close> and nothing else.
\<close>

theorem resolve_handle_not_found:
  fixes e ev w
  defines "jobID \<equiv> field (payload ev) ''jobID''"
    and "email \<equiv> field (payload ev) ''email''"
    and "w' \<equiv> resolveChannel_handler e ev w"
  defines "k \<equiv> job_key jobID"
  assumes "YOUTUBE_API_KEY e = Some apiKey" and "apiKey \<noteq> []"
    and "field (payload ev) ''channel'' = Str c" and "take 1 c = ''@''"
    and "fetch e (search_request (drop 1 c) apiKey) = Inr primary"
    and "items primary = None \<or> items primary = Some []"
    and "fetch e (search_request c apiKey) = Inr fallback"
  shows "store w' = (store w)(k \<mapsto>
            (spread (store w k))(''status'' \<mapsto> Str ''failed'', ''error'' \<mapsto> Str ''Channel not found''))
       \<and> trace w' = trace w @
            [StateGet k (store w k),
             StateSet k ((spread (store w k))(''status'' \<mapsto> Str ''resolving channel'')),
             StateSet k ((spread (store w k))(''status'' \<mapsto> Str ''failed'',
                                              ''error'' \<mapsto> Str ''Channel not found'')),
             Emit ''yt.channel.error'' [''jobID'' \<mapsto> jobID, ''email'' \<mapsto> email]]
       \<and> dom [''jobID'' \<mapsto> jobID, ''email'' \<mapsto> email] = {''jobID'', ''email''}"
  using assms(5-) unfolding w'_def k_def jobID_def email_def
  by (auto simp: resolve_defs)

text \<open>The handle search finds nothing, and the fallback search finds the channel.\<close>

theorem resolve_handle_not_found_witness:
  "store (resolveChannel_handler (demo_env (Some []) (Some [acme_channel]) None)
            (Some demo_event) demo_world) ''job: job_5_abc'' =
     Some (demo_record(''status'' \<mapsto> Str ''failed'', ''error'' \<mapsto> Str ''Channel not found''))
   \<and> emitted (trace (resolveChannel_handler (demo_env (Some []) (Some [acme_channel]) None)
            (Some demo_event) demo_world)) =
     [(''yt.channel.error'', [''jobID'' \<mapsto> Str ''job_5_abc'', ''email'' \<mapsto> Str ''a@b.co''])]"
proof -
  let ?e = "demo_env (Some []) (Some [acme_channel]) None"
  have h1: "YOUTUBE_API_KEY ?e = Some ''secret''" and h2: "''secret'' \<noteq> []"
    and h3: "field (payload (Some demo_event)) ''channel'' = Str ''@acme''"
    and h4: "take 1 ''@acme'' = ''@''"
    and h5: "fetch ?e (search_request (drop 1 ''@acme'') ''secret'') = Inr \<lparr>items = Some []\<rparr>"
    and h6: "items \<lparr>items = Some []\<rparr> = None \<or> items \<lparr>items = Some []\<rparr> = Some []"
    and h7: "fetch ?e (search_request ''@acme'' ''secret'') = Inr \<lparr>items = Some [acme_channel]\<rparr>"
    by (simp_all add: demo_defs)
  show ?thesis
    using resolve_handle_not_found [OF h1 h2 h3 h4 h5 h6 h7, of demo_world]
    by (simp add: demo_defs)
qed

section \<open>The listing stage\<close>

text \<open>
  Claim C7, as stated, fails: when the listing returns no item, the error stored in the
  record is \<^verbatim>\<open>no videos found\<close>; \<^verbatim>\<open>No videos found for channel\<close> is the error of the event.
\<close>

theorem listing_no_videos_record_error:
  "store (fetchVideos_handler (demo_env None None (Some [])) (Some demo_resolved) demo_world)
     ''job: job_5_abc'' =
     Some (demo_record(''status'' \<mapsto> Str ''failed'', ''error'' \<mapsto> Str ''no videos found''))
   \<and> (demo_record(''status'' \<mapsto> Str ''failed'', ''error'' \<mapsto> Str ''no videos found'')) ''error''
       \<noteq> Some (Str ''No videos found for channel'')"
  by (simp add: fetch_defs demo_defs)

text \<open>
  Claim C7, amended. When the listing call returns no item (no \<^verbatim>\<open>items\<close>, or an empty
  array), the stage leaves the record with status \<^verbatim>\<open>failed\<close> and error \<^verbatim>\<open>no videos found\<close>,
  and emits one \<^verbatim>\<open>yt.videos.error\<close> event carrying the job identifier, the email and the
  error \<^verbatim>\<open>No videos found for channel\<close>.
\<close>

theorem listing_no_videos:
  fixes e ev w
  defines "jobID \<equiv> field (payload ev) ''jobID''"
    and "email \<equiv> field (payload ev) ''email''"
    and "w' \<equiv> fetchVideos_handler e ev w"
  defines "k \<equiv> job_key jobID"
  assumes "YOUTUBE_API_KEY e = Some apiKey" and "apiKey \<noteq> []"
    and "fetch e (list_request (field (payload ev) ''channelID'') apiKey) = Inr ytData"
    and "items ytData = None \<or> items ytData = Some []"
  shows "store w' = (store w)(k \<mapsto>
            (spread (store w k))(''status'' \<mapsto> Str ''failed'', ''error'' \<mapsto> Str ''no videos found''))
       \<and> trace w' = trace w @
            [StateGet k (store w k),
             StateSet k ((spread (store w k))(''status'' \<mapsto> Str ''fetching videos'')),
             StateSet k ((spread (store w k))(''status'' \<mapsto> Str ''failed'',
                                              ''error'' \<mapsto> Str ''no videos found'')),
             Emit ''yt.videos.error''
               [''jobID'' \<mapsto> jobID, ''email'' \<mapsto> email,
                ''error'' \<mapsto> Str ''No videos found for channel'']]"
  using assms(5-) unfolding w'_def k_def jobID_def email_def
  by (auto simp: fetch_defs)

theorem listing_no_videos_witness:
  "emitted (trace (fetchVideos_handler (demo_env None None None) (Some demo_resolved) demo_world)) =
     [(''yt.videos.error'',
       [''jobID'' \<mapsto> Str ''job_5_abc'', ''email'' \<mapsto> Str ''a@b.co'',
        ''error'' \<mapsto> Str ''No videos found for channel''])]
   \<and> store (fetchVideos_handler (demo_env None None None) (Some demo_resolved) demo_world)
        ''job: job_5_abc'' =
       Some (demo_record(''status'' \<mapsto> Str ''failed'', ''error'' \<mapsto> Str ''no videos found''))"
proof -
  let ?e = "demo_env None None None"
  have h1: "YOUTUBE_API_KEY ?e = Some ''secret''" and h2: "''secret'' \<noteq> []"
    and h3: "fetch ?e (list_request (field (payload (Some demo_resolved)) ''channelID'') ''secret'')
               = Inr \<lparr>items = None\<rparr>"
    and h4: "items \<lparr>items = None\<rparr> = None \<or> items \<lparr>items = None\<rparr> = Some []"
    by (simp_all add: demo_defs)
  show ?thesis
    using listing_no_videos [OF h1 h2 h3 h4, of demo_world]
    by (simp add: demo_defs)
qed



section \<open>Both event stages\<close>

text \<open>
  Claim C9, as stated, fails: both stages update the status of the job's record before
  anything can fail after the credential check. For a payload that carries the job
  identifier and no email, the resolution stage writes the status \<^verbatim>\<open>resolving channel\<close> to
  the record, then fails on the missing channel, and only then returns silently.
\<close>

theorem status_written_before_silent_drop:
  "fst (resolve_try (demo_env None None None) (payload (Some bare_event)) demo_world) = Some TypeError
   \<and> \<not> truthy (field (payload (Some bare_event)) ''email'')
   \<and> writes (new_ops demo_world
        (resolveChannel_handler (demo_env None None None) (Some bare_event) demo_world)) =
        [(''job: job_5_abc'', demo_record(''status'' \<mapsto> Str ''resolving channel''))]
   \<and> store (resolveChannel_handler (demo_env None None None) (Some bare_event) demo_world)
        ''job: job_5_abc'' = Some (demo_record(''status'' \<mapsto> Str ''resolving channel''))"
  by (simp add: run_defs demo_defs bare_event_def)

text \<open>
  Claim C9, amended. When a failure leaves the \<^verbatim>\<open>try\<close> block of the resolution stage or of
  the listing stage and the job identifier or the email of the payload is missing, the
  \<^verbatim>\<open>catch\<close> block does nothing: the handler ends in the world the failure left, and no event
  is emitted in the whole invocation. When the failure is the missing credential, the
  store is untouched. When the credential is present and the job identifier was extracted
  (so it is the email that is missing), the stage has made exactly its status update
  (\<^verbatim>\<open>resolving channel\<close>, \<^verbatim>\<open>fetching videos\<close>) on the job's record before the failure, and
  that update stays.
\<close>

theorem silent_drop_after_failure:
  fixes e ev w
  defines "jobID \<equiv> field (payload ev) ''jobID''"
    and "email \<equiv> field (payload ev) ''email''"
  defines "k \<equiv> job_key jobID"
  shows "(resolve_try e (payload ev) w = (Some x, w1) \<and> (\<not> truthy jobID \<or> \<not> truthy email)
            \<longrightarrow> resolveChannel_handler e ev w = w1
                \<and> emitted (new_ops w w1) = []
                \<and> (YOUTUBE_API_KEY e = None \<or> YOUTUBE_API_KEY e = Some [] \<longrightarrow> w1 = w)
                \<and> ((\<exists>apiKey. YOUTUBE_API_KEY e = Some apiKey \<and> apiKey \<noteq> []) \<and> truthy jobID
                     \<longrightarrow> new_ops w w1 =
                           [StateGet k (store w k),
                            StateSet k ((spread (store w k))(''status'' \<mapsto> Str ''resolving channel''))]
                         \<and> store w1 = (store w)(k \<mapsto>
                             (spread (store w k))(''status'' \<mapsto> Str ''resolving channel''))))
       \<and> (fetch_try e (payload ev) w = (Some y, w2) \<and> (\<not> truthy jobID \<or> \<not> truthy email)
            \<longrightarrow> fetchVideos_handler e ev w = w2
                \<and> emitted (new_ops w w2) = []
                \<and> (YOUTUBE_API_KEY e = None \<or> YOUTUBE_API_KEY e = Some [] \<longrightarrow> w2 = w)
                \<and> ((\<exists>apiKey. YOUTUBE_API_KEY e = Some apiKey \<and> apiKey \<noteq> []) \<and> truthy jobID
                     \<longrightarrow> new_ops w w2 =
                           [StateGet k (store w k),
                            StateSet k ((spread (store w k))(''status'' \<mapsto> Str ''fetching videos''))]
                         \<and> store w2 = (store w)(k \<mapsto>
                             (spread (store w k))(''status'' \<mapsto> Str ''fetching videos''))))"
proof -
  have r: "resolve_try e (payload ev) w = (Some x, w1) \<Longrightarrow> \<not> truthy jobID \<or> \<not> truthy email
            \<Longrightarrow> resolveChannel_handler e ev w = w1
                \<and> emitted (new_ops w w1) = []
                \<and> (YOUTUBE_API_KEY e = None \<or> YOUTUBE_API_KEY e = Some [] \<longrightarrow> w1 = w)
                \<and> ((\<exists>apiKey. YOUTUBE_API_KEY e = Some apiKey \<and> apiKey \<noteq> []) \<and> truthy jobID
                     \<longrightarrow> new_ops w w1 =
                           [StateGet k (store w k),
                            StateSet k ((spread (store w k))(''status'' \<mapsto> Str ''resolving channel''))]
                         \<and> store w1 = (store w)(k \<mapsto>
                             (spread (store w k))(''status'' \<mapsto> Str ''resolving channel'')))"
    unfolding jobID_def email_def k_def
    using resolve_try_cases [of e "payload ev" w]
    by (elim disjE exE conjE)
       (auto simp: resolveChannel_handler_def resolve_catch_def new_ops_def resolve_try_def)
  have f: "fetch_try e (payload ev) w = (Some y, w2) \<Longrightarrow> \<not> truthy jobID \<or> \<not> truthy email
            \<Longrightarrow> fetchVideos_handler e ev w = w2
                \<and> emitted (new_ops w w2) = []
                \<and> (YOUTUBE_API_KEY e = None \<or> YOUTUBE_API_KEY e = Some [] \<longrightarrow> w2 = w)
                \<and> ((\<exists>apiKey. YOUTUBE_API_KEY e = Some apiKey \<and> apiKey \<noteq> []) \<and> truthy jobID
                     \<longrightarrow> new_ops w w2 =
                           [StateGet k (store w k),
                            StateSet k ((spread (store w k))(''status'' \<mapsto> Str ''fetching videos''))]
                         \<and> store w2 = (store w)(k \<mapsto>
                             (spread (store w k))(''status'' \<mapsto> Str ''fetching videos'')))"
    unfolding jobID_def email_def k_def
    using fetch_try_cases [of e "payload ev" w]
    by (elim disjE exE conjE)
       (auto simp: fetchVideos_handler_def fetch_catch_def new_ops_def fetch_try_def)
  from r f show ?thesis by blast
qed

text \<open>
  The resolution stage without credential and without payload; the listing stage with a
  payload that has no email and a listing whose item has no thumbnails.
\<close>

lemma failing_runs:
  "resolve_try ((demo_env None None None)\<lparr>YOUTUBE_API_KEY := None\<rparr>) (payload None) empty_world
     = (Some missing_key, empty_world)"
  "fetch_try (demo_env None None (Some [acme_channel])) (payload (Some bare_event)) demo_world
     = (Some TypeError,
        \<lparr>store = [''job: job_5_abc'' \<mapsto> demo_record(''status'' \<mapsto> Str ''fetching videos'')],
         trace = [StateGet ''job: job_5_abc'' (Some demo_record),
                  StateSet ''job: job_5_abc'' (demo_record(''status'' \<mapsto> Str ''fetching videos''))]\<rparr>)"
  by (simp_all add: run_defs demo_defs bare_event_def)

theorem silent_drop_after_failure_witness:
  "resolveChannel_handler ((demo_env None None None)\<lparr>YOUTUBE_API_KEY := None\<rparr>) None empty_world
     = empty_world
   \<and> fetchVideos_handler (demo_env None None (Some [acme_channel])) (Some bare_event) demo_world
     = \<lparr>store = [''job: job_5_abc'' \<mapsto> demo_record(''status'' \<mapsto> Str ''fetching videos'')],
        trace = [StateGet ''job: job_5_abc'' (Some demo_record),
                 StateSet ''job: job_5_abc'' (demo_record(''status'' \<mapsto> Str ''fetching videos''))]\<rparr>
   \<and> new_ops demo_world
        \<lparr>store = [''job: job_5_abc'' \<mapsto> demo_record(''status'' \<mapsto> Str ''fetching videos'')],
         trace = [StateGet ''job: job_5_abc'' (Some demo_record),
                  StateSet ''job: job_5_abc'' (demo_record(''status'' \<mapsto> Str ''fetching videos''))]\<rparr>
      = [StateGet ''job: job_5_abc'' (Some demo_record),
         StateSet ''job: job_5_abc'' (demo_record(''status'' \<mapsto> Str ''fetching videos''))]"
proof -
  let ?w2 = "\<lparr>store = [''job: job_5_abc'' \<mapsto> demo_record(''status'' \<mapsto> Str ''fetching videos'')],
         trace = [StateGet ''job: job_5_abc'' (Some demo_record),
                  StateSet ''job: job_5_abc'' (demo_record(''status'' \<mapsto> Str ''fetching videos''))]\<rparr>"
  have u: "\<not> truthy (field (payload None) ''jobID'')"
          "\<not> truthy (field (payload (Some bare_event)) ''email'')"
          "truthy (field (payload (Some bare_event)) ''jobID'')"
    by (simp_all add: payload_def field_def bare_event_def)
  have c: "YOUTUBE_API_KEY (demo_env None None (Some [acme_channel])) = Some ''secret'' \<and> ''secret'' \<noteq> []"
    by (simp add: demo_env_def)
  have kk: "job_key (field (payload (Some bare_event)) ''jobID'') = ''job: job_5_abc''"
    by (simp add: payload_def field_def bare_event_def job_key_def)
  have sp: "spread (store demo_world ''job: job_5_abc'') = demo_record"
    by (simp add: demo_world_def)
  note t1 = silent_drop_after_failure
    [where e = "(demo_env None None None)\<lparr>YOUTUBE_API_KEY := None\<rparr>" and ev = None
       and w = empty_world and x = missing_key and ?w1.0 = empty_world, THEN conjunct1]
  note t2 = silent_drop_after_failure
    [where e = "demo_env None None (Some [acme_channel])" and ev = "Some bare_event"
       and w = demo_world and y = TypeError and ?w2.0 = ?w2, THEN conjunct2]
  from t1 failing_runs(1) u(1) have a: "resolveChannel_handler
      ((demo_env None None None)\<lparr>YOUTUBE_API_KEY := None\<rparr>) None empty_world = empty_world"
    by blast
  from t2 failing_runs(2) u(2) have b: "fetchVideos_handler
      (demo_env None None (Some [acme_channel])) (Some bare_event) demo_world = ?w2"
    by blast
  from t2 failing_runs(2) u(2,3) c have "new_ops demo_world ?w2 =
      [StateGet (job_key (field (payload (Some bare_event)) ''jobID''))
         (store demo_world (job_key (field (payload (Some bare_event)) ''jobID''))),
       StateSet (job_key (field (payload (Some bare_event)) ''jobID''))
         ((spread (store demo_world (job_key (field (payload (Some bare_event)) ''jobID''))))
            (''status'' \<mapsto> Str ''fetching videos''))]"
    by blast
  then have d: "new_ops demo_world ?w2 =
      [StateGet ''job: job_5_abc'' (Some demo_record),
       StateSet ''job: job_5_abc'' (demo_record(''status'' \<mapsto> Str ''fetching videos''))]"
    unfolding kk sp by (simp add: demo_world_def)
  from a b d show ?thesis by simp
qed

text \<open>
  Claim C10. Every write of the resolution stage and of the listing stage goes to the key
  of the payload's job identifier, and the record written agrees with the record that the
  store held under that key when the handler started on every field other than \<^verbatim>\<open>status\<close>,
  \<^verbatim>\<open>error\<close> and \<^verbatim>\<open>videos\<close>: \<^verbatim>\<open>jobID\<close>, \<^verbatim>\<open>channel\<close>, \<^verbatim>\<open>email\<close>, \<^verbatim>\<open>createdAt\<close> and any other field
  are carried over, and a field the record did not have is not added.
\<close>

theorem stage_writes_keep_other_fields:
  fixes e ev w
  defines "k \<equiv> job_key (field (payload ev) ''jobID'')"
  shows "(\<forall>kr \<in> set (writes (new_ops w (resolveChannel_handler e ev w))).
            fst kr = k \<and>
            (\<forall>f. f \<notin> {''status'', ''error'', ''videos''} \<longrightarrow> snd kr f = spread (store w k) f))
       \<and> (\<forall>kr \<in> set (writes (new_ops w (fetchVideos_handler e ev w))).
            fst kr = k \<and>
            (\<forall>f. f \<notin> {''status'', ''error'', ''videos''} \<longrightarrow> snd kr f = spread (store w k) f))"
  unfolding k_def using resolve_frame [of _ w e ev] fetch_frame [of _ w e ev] by blast

text \<open>The two writes of each stage on the record of job \<^verbatim>\<open>job_5_abc\<close>, when nothing is found.\<close>

theorem stage_writes_keep_other_fields_witness:
  "writes (new_ops demo_world
      (resolveChannel_handler (demo_env None None None) (Some demo_event) demo_world)) =
     [(''job: job_5_abc'', demo_record(''status'' \<mapsto> Str ''resolving channel'')),
      (''job: job_5_abc'', demo_record(''status'' \<mapsto> Str ''failed'',
                                        ''error'' \<mapsto> Str ''Channel not found''))]
   \<and> (demo_record(''status'' \<mapsto> Str ''failed'', ''error'' \<mapsto> Str ''Channel not found'')) ''createdAt''
       = demo_record ''createdAt''
   \<and> writes (new_ops demo_world
      (fetchVideos_handler (demo_env None None None) (Some demo_resolved) demo_world)) =
     [(''job: job_5_abc'', demo_record(''status'' \<mapsto> Str ''fetching videos'')),
      (''job: job_5_abc'', demo_record(''status'' \<mapsto> Str ''failed'',
                                        ''error'' \<mapsto> Str ''no videos found''))]
   \<and> (demo_record(''status'' \<mapsto> Str ''failed'', ''error'' \<mapsto> Str ''no videos found'')) ''email''
       = demo_record ''email''"
proof -
  let ?e = "demo_env None None None"
  have w1: "writes (new_ops demo_world (resolveChannel_handler ?e (Some demo_event) demo_world)) =
     [(''job: job_5_abc'', demo_record(''status'' \<mapsto> Str ''resolving channel'')),
      (''job: job_5_abc'', demo_record(''status'' \<mapsto> Str ''failed'',
                                        ''error'' \<mapsto> Str ''Channel not found''))]"
    by (simp add: run_defs demo_env_def demo_event_def demo_world_def payload_def field_def
                  search_request_def job_key_def)
  have w2: "writes (new_ops demo_world (fetchVideos_handler ?e (Some demo_resolved) demo_world)) =
     [(''job: job_5_abc'', demo_record(''status'' \<mapsto> Str ''fetching videos'')),
      (''job: job_5_abc'', demo_record(''status'' \<mapsto> Str ''failed'',
                                        ''error'' \<mapsto> Str ''no videos found''))]"
    by (simp add: run_defs demo_env_def demo_resolved_def demo_world_def payload_def field_def
                  list_request_def job_key_def)
  have k: "job_key (field (payload (Some demo_event)) ''jobID'') = ''job: job_5_abc''"
          "job_key (field (payload (Some demo_resolved)) ''jobID'') = ''job: job_5_abc''"
    by (simp_all add: demo_defs)
  have s: "spread (store demo_world ''job: job_5_abc'') = demo_record"
    by (simp add: demo_world_def)
  have c: "''createdAt'' \<notin> {''status'', ''error'', ''videos''}"
          "''email'' \<notin> {''status'', ''error'', ''videos''}"
    by simp_all
  note t1 = stage_writes_keep_other_fields [of demo_world ?e "Some demo_event", THEN conjunct1]
  note t2 = stage_writes_keep_other_fields [of demo_world ?e "Some demo_resolved", THEN conjunct2]
  from t1 have "(demo_record(''status'' \<mapsto> Str ''failed'', ''error'' \<mapsto> Str ''Channel not found''))
                  ''createdAt'' = demo_record ''createdAt''"
    unfolding w1 k s using c(1) by auto
  moreover from t2 have "(demo_record(''status'' \<mapsto> Str ''failed'', ''error'' \<mapsto> Str ''no videos found''))
                  ''email'' = demo_record ''email''"
    unfolding w2 k s using c(2) by auto
  ultimately show ?thesis using w1 w2 by simp
qed

section \<open>The whole pipeline\<close>

text \<open>
  Claim C2 fails on the handler of line 33 of \<^verbatim>\<open>01-submit.step.ts\<close>, which writes the record
  under \<^verbatim>\<open>job:job_5_abc\<close>: the resolution stage reads \<^verbatim>\<open>job: job_5_abc\<close>, finds nothing, and
  writes a record that has a status and no other field. With the handler of line 125 the
  resolution stage reads back the record the submission wrote.
\<close>

theorem line66_record_not_read_back:
  "take 4 (trace (snd (run_job key_line66 (demo_env (Some [acme_channel]) None None)
                         (Some demo_body) empty_world))) =
     [StateSet ''job:job_5_abc'' demo_record,
      Emit ''yt.submit'' demo_event,
      StateGet ''job: job_5_abc'' None,
      StateSet ''job: job_5_abc'' [''status'' \<mapsto> Str ''resolving channel'']]
   \<and> take 4 (trace (snd (run_job key_line154 (demo_env (Some [acme_channel]) None None)
                         (Some demo_body) empty_world))) =
     [StateSet ''job: job_5_abc'' demo_record,
      Emit ''yt.submit'' demo_event,
      StateGet ''job: job_5_abc'' (Some demo_record),
      StateSet ''job: job_5_abc'' (demo_record(''status'' \<mapsto> Str ''resolving channel''))]"
  by (simp add: run_defs demo_defs)

text \<open>
  Claim C3, as stated, fails: the bus may deliver an event again, and neither stage tests
  the stored status before it overwrites it. When the \<^verbatim>\<open>yt.submit\<close> event of a finished job
  is delivered once more, the resolution stage sets the status back from \<^verbatim>\<open>videos fetched\<close>
  to \<^verbatim>\<open>resolving channel\<close>.
\<close>

theorem redelivery_moves_status_backward:
  "map (\<lambda>r. field r ''status'')
     (writes_to ''job: job_5_abc''
        (trace (deliveries (demo_env (Some [acme_channel]) None (Some (take 5 seven_videos)))
                  [(''yt.submit'', demo_event)]
                  (snd (run_job key_line154
                          (demo_env (Some [acme_channel]) None (Some (take 5 seven_videos)))
                          (Some demo_body) empty_world))))) =
     [Str ''queued'', Str ''resolving channel'', Str ''fetching videos'', Str ''videos fetched'',
      Str ''resolving channel'']
   \<and> \<not> sorted_wrt not_backward
        [Str ''queued'', Str ''resolving channel'', Str ''fetching videos'', Str ''videos fetched'',
         Str ''resolving channel'']"
  by (simp add: run_defs demo_defs deliveries_def writes_to_def seven_videos_def acme_video_def
                rank_defs)

text \<open>
  Claim C3, amended. Every record the submission handler writes has status \<^verbatim>\<open>queued\<close>, and
  every record the resolution and listing stages write, under any sequence of deliveries
  (in any order, with repetitions), has one of the five statuses \<^verbatim>\<open>queued\<close>,
  \<^verbatim>\<open>resolving channel\<close>, \<^verbatim>\<open>fetching videos\<close>, \<^verbatim>\<open>videos fetched\<close> and \<^verbatim>\<open>failed\<close>. In the run of
  one job in which each emitted event is delivered exactly once, the statuses written
  under a key never move backward in this order.
\<close>

theorem status_valid_and_monotonic_once:
  fixes key e b w k evs
  defines "recs \<equiv> writes_to k (new_ops w (snd (run_job key e b w)))"
  shows "(\<forall>kr \<in> set (writes (new_ops w (snd (submit_handler key e b w)))).
            field (snd kr) ''status'' = Str ''queued'')
       \<and> (\<forall>kr \<in> set (writes (new_ops w (deliveries e evs w))).
            field (snd kr) ''status'' \<in>
              {Str ''queued'', Str ''resolving channel'', Str ''fetching videos'',
               Str ''videos fetched'', Str ''failed''})
       \<and> list_all (\<lambda>r. field r ''status'' \<in>
             {Str ''queued'', Str ''resolving channel'', Str ''fetching videos'',
              Str ''videos fetched'', Str ''failed''}) recs
       \<and> sorted_wrt not_backward (map (\<lambda>r. field r ''status'') recs)"
proof -
  have s: "\<forall>kr \<in> set (writes (new_ops w (snd (submit_handler key e b w)))).
            field (snd kr) ''status'' = Str ''queued''"
    by (simp add: submit_handler_def Let_def new_ops_def field_def split: option.split)
  have d: "\<forall>kr \<in> set (writes (new_ops w (deliveries e evs w))).
            field (snd kr) ''status'' \<in>
              {Str ''queued'', Str ''resolving channel'', Str ''fetching videos'',
               Str ''videos fetched'', Str ''failed''}"
  proof
    fix kr assume "kr \<in> set (writes (new_ops w (deliveries e evs w)))"
    then have "(fst kr, field (snd kr) ''status'') \<in> set (stat_writes (new_ops w (deliveries e evs w)))"
      by (rule stat_writes_member)
    from deliveries_status [OF this] show "field (snd kr) ''status'' \<in>
              {Str ''queued'', Str ''resolving channel'', Str ''fetching videos'',
               Str ''videos fetched'', Str ''failed''}" by simp
  qed
  let ?L = "stat_writes (new_ops w (snd (run_job key e b w)))"
  let ?S = "map snd (filter (\<lambda>x. fst x = k) ?L)"
  have m: "map (\<lambda>r. field r ''status'') recs = ?S"
    unfolding recs_def by (rule writes_to_status)
  have "list_all (\<lambda>v. v \<in> {Str ''queued'', Str ''resolving channel'', Str ''fetching videos'',
              Str ''videos fetched'', Str ''failed''}) ?S \<and> sorted_wrt not_backward ?S"
    using run_job_statuses [of w key e b]
    by (elim disjE exE conjE) (auto simp: rank_defs)
  then have r: "list_all (\<lambda>r. field r ''status'' \<in>
             {Str ''queued'', Str ''resolving channel'', Str ''fetching videos'',
              Str ''videos fetched'', Str ''failed''}) recs
       \<and> sorted_wrt not_backward (map (\<lambda>r. field r ''status'') recs)"
    unfolding m [symmetric] by (simp add: list_all_iff)
  from s d r show ?thesis by blast
qed

text \<open>The job of \<^verbatim>\<open>@acme\<close>, resolved and listed with five videos, each event delivered once.\<close>

theorem status_valid_and_monotonic_once_witness:
  "map (\<lambda>r. field r ''status'')
     (writes_to ''job: job_5_abc''
        (new_ops empty_world
           (snd (run_job key_line154 (demo_env (Some [acme_channel]) None (Some (take 5 seven_videos)))
                   (Some demo_body) empty_world)))) =
     [Str ''queued'', Str ''resolving channel'', Str ''fetching videos'', Str ''videos fetched'']
   \<and> sorted_wrt not_backward
        [Str ''queued'', Str ''resolving channel'', Str ''fetching videos'', Str ''videos fetched'']"
proof -
  have run: "map (\<lambda>r. field r ''status'')
     (writes_to ''job: job_5_abc''
        (new_ops empty_world
           (snd (run_job key_line154 (demo_env (Some [acme_channel]) None (Some (take 5 seven_videos)))
                   (Some demo_body) empty_world)))) =
     [Str ''queued'', Str ''resolving channel'', Str ''fetching videos'', Str ''videos fetched'']"
    by (simp add: run_defs demo_defs writes_to_def seven_videos_def acme_video_def)
  show ?thesis
    using status_valid_and_monotonic_once
      [where k = "''job: job_5_abc''" and w = empty_world and key = key_line154
         and e = "demo_env (Some [acme_channel]) None (Some (take 5 seven_videos))"
         and b = "Some demo_body" and evs = "[]"]
    unfolding run by simp
qed

end
